theory Spec2Isabelle
  imports Complex_Main "HOL-Library.Word" "HOL-Library.Sublist"
begin

unbundle bit_operations_syntax

section \<open>Strings and characters of the host language\<close>

text \<open>
  A text is a \<^typ>\<open>string\<close>: the list of its code units, restricted to the code units
  U+0000 .. U+00FF (one \<^typ>\<open>char\<close> each). The classes below are the ones the regular
  expressions and string methods of the sources use, read on that range:
  \<^verbatim>\<open>\s\<close> is TAB, LF, VT, FF, CR, SPACE and NBSP; \<^verbatim>\<open>\d\<close> is 0-9;
  \<^verbatim>\<open>\w\<close> is A-Z, a-z, 0-9 and the underscore; a line terminator (for \<^verbatim>\<open>^\<close> and
  \<^verbatim>\<open>$\<close> under the m flag) is LF or CR.
\<close>

definition code :: "char \<Rightarrow> nat" where
  "code c = of_char c"

definition isSpace :: "char \<Rightarrow> bool" where
  "isSpace c = ((9 \<le> code c \<and> code c \<le> 13) \<or> code c = 32 \<or> code c = 160)"

definition isDigit :: "char \<Rightarrow> bool" where
  "isDigit c = (48 \<le> code c \<and> code c \<le> 57)"

definition isLowerAZ :: "char \<Rightarrow> bool" where
  "isLowerAZ c = (97 \<le> code c \<and> code c \<le> 122)"

definition isUpperAZ :: "char \<Rightarrow> bool" where
  "isUpperAZ c = (65 \<le> code c \<and> code c \<le> 90)"

definition isWord :: "char \<Rightarrow> bool" where
  "isWord c = (isUpperAZ c \<or> isLowerAZ c \<or> isDigit c \<or> code c = 95)"

definition isLineTerminator :: "char \<Rightarrow> bool" where
  "isLineTerminator c = (code c = 10 \<or> code c = 13)"

text \<open>\<^verbatim>\<open>[^\x20-\x7E\n]\<close> removes every character that is not kept by this class.\<close>

definition isPrintableOrLF :: "char \<Rightarrow> bool" where
  "isPrintableOrLF c = ((32 \<le> code c \<and> code c \<le> 126) \<or> code c = 10)"

text \<open>
  \<^verbatim>\<open>toLowerCase\<close>: on U+0000 .. U+00FF the letters with a lower-case form are A-Z and
  U+00C0 .. U+00DE without the multiplication sign U+00D7; the lower-case form sets
  bit 5 of the code unit (adds 32).
\<close>

definition hasLowerForm :: "char \<Rightarrow> bool" where
  "hasLowerForm c = (isUpperAZ c \<or> (192 \<le> code c \<and> code c \<le> 222 \<and> code c \<noteq> 215))"

definition toLowerChar :: "char \<Rightarrow> char" where
  "toLowerChar c =
     (if hasLowerForm c
      then Char (digit0 c) (digit1 c) (digit2 c) (digit3 c) (digit4 c) True (digit6 c) (digit7 c)
      else c)"

definition toLowerCase :: "string \<Rightarrow> string" where
  "toLowerCase s = map toLowerChar s"

definition startsWith :: "string \<Rightarrow> string \<Rightarrow> bool" where
  "startsWith s p = (take (length p) s = p)"

text \<open>\<^verbatim>\<open>s.includes(t)\<close>: \<open>t\<close> occurs in \<open>s\<close> as a contiguous substring.\<close>

fun str_includes :: "string \<Rightarrow> string \<Rightarrow> bool" where
  "str_includes [] t = (t = [])"
| "str_includes (c # cs) t = (startsWith (c # cs) t \<or> str_includes cs t)"

text \<open>\<^verbatim>\<open>s.trim()\<close> removes white space and line terminators at both ends.\<close>

definition trim :: "string \<Rightarrow> string" where
  "trim s = rev (dropWhile isSpace (rev (dropWhile isSpace s)))"

text \<open>\<^verbatim>\<open>xs.join(sep)\<close> on a list of strings.\<close>

fun join :: "string \<Rightarrow> string list \<Rightarrow> string" where
  "join sep [] = []"
| "join sep [x] = x"
| "join sep (x # y # ys) = x @ sep @ join sep (y # ys)"

section \<open>PDF validation (pdf-parser.ts)\<close>

text \<open>
  A \<^verbatim>\<open>Buffer\<close> is the list of its bytes. The result
  \<^verbatim>\<open>{ valid: boolean; error?: string }\<close> is a record; the three messages are the
  constructors of \<open>validation_error\<close>, the too-large one carrying the two numbers its
  text prints (the size in MB and the ceiling).
\<close>

type_synonym Buffer = "8 word list"

datatype validation_error =
    No_file_content_received
  | File_size_exceeds_maximum rat rat
  | File_is_not_a_valid_PDF_format

record validation =
  valid :: bool
  error :: "validation_error option"

text \<open>
  \<^verbatim>\<open>buffer.toString('ascii', start, end)\<close>: the bytes from \<open>start\<close> up to \<open>end\<close>
  (as far as the buffer reaches), each decoded as one character. The platform's
  \<^verbatim>\<open>'ascii'\<close> decoding unsets the highest bit of each byte before decoding it, so the
  character has the byte's bits 0 to 6 and bit 7 clear.
\<close>

definition asciiChar :: "8 word \<Rightarrow> char" where
  "asciiChar b = Char (bit b 0) (bit b 1) (bit b 2) (bit b 3) (bit b 4) (bit b 5) (bit b 6) False"

definition toString_ascii :: "Buffer \<Rightarrow> nat \<Rightarrow> nat \<Rightarrow> string" where
  "toString_ascii buffer start end = map asciiChar (take (end - start) (drop start buffer))"

definition validatePDFFile :: "Buffer \<Rightarrow> rat \<Rightarrow> validation" where
  "validatePDFFile buffer maxSizeMB =
    (if length buffer = 0
     then \<lparr>valid = False, error = Some No_file_content_received\<rparr>
     else
       let fileSizeMB = of_nat (length buffer) / (1024 * 1024) in
       if fileSizeMB > maxSizeMB
       then \<lparr>valid = False, error = Some (File_size_exceeds_maximum fileSizeMB maxSizeMB)\<rparr>
       else
         let header = toString_ascii buffer 0 8 in
         if \<not> startsWith header ''%PDF-''
         then \<lparr>valid = False, error = Some File_is_not_a_valid_PDF_format\<rparr>
         else \<lparr>valid = True, error = None\<rparr>)"

text \<open>The default ceiling of the parameter \<^verbatim>\<open>maxSizeMB\<close>.\<close>

definition defaultMaxSizeMB :: rat where
  "defaultMaxSizeMB = 10"

text \<open>
  The claim's words: a buffer begins with the 5-byte magic marker when its first five
  bytes are the codes of \<^verbatim>\<open>%PDF-\<close>; its leading bytes are 7-bit when none of the
  first five has the highest bit set.
\<close>

definition PDF_MAGIC :: "8 word list" where
  "PDF_MAGIC = [0x25, 0x50, 0x44, 0x46, 0x2D]"

definition beginsWithMagic :: "Buffer \<Rightarrow> bool" where
  "beginsWithMagic buffer = (take 5 buffer = PDF_MAGIC)"

definition leadingBytes7bit :: "Buffer \<Rightarrow> bool" where
  "leadingBytes7bit buffer = list_all (\<lambda>b. \<not> bit b 7) (take 5 buffer)"

section \<open>Heuristic pre-scorer (resume-analyzer.ts, generateQuickScore)\<close>

text \<open>
  \<^verbatim>\<open>s.split(/\s+/)\<close>: the pieces between the maximal runs of white space; a run at
  the start or at the end leaves an empty piece, and the empty text has one piece, the
  empty one. The flag says that the character before was white space.
\<close>

fun splitSpacesFrom :: "bool \<Rightarrow> string \<Rightarrow> string list" where
  "splitSpacesFrom inRun [] = [[]]"
| "splitSpacesFrom inRun (c # cs) =
     (if isSpace c
      then (if inRun then splitSpacesFrom True cs else [] # splitSpacesFrom True cs)
      else (case splitSpacesFrom False cs of
              [] \<Rightarrow> [[c]]
            | p # ps \<Rightarrow> (c # p) # ps))"

definition splitSpaces :: "string \<Rightarrow> string list" where
  "splitSpaces s = splitSpacesFrom False s"

text \<open>
  \<^verbatim>\<open>/\d{3}[-.]?\d{3}[-.]?\d{4}/.test(content)\<close>. \<open>digitsThen n s\<close> reads exactly
  \<open>n\<close> digits and returns the rest; \<open>optionalSep k s\<close> is \<^verbatim>\<open>[-.]?\<close> followed by
  \<open>k\<close>: first with the separator taken, then without it; \<open>phoneAt\<close> is a match that
  starts at the head of the text and \<open>phoneTest\<close> a match anywhere.
\<close>

fun digitsThen :: "nat \<Rightarrow> string \<Rightarrow> string option" where
  "digitsThen 0 s = Some s"
| "digitsThen (Suc n) [] = None"
| "digitsThen (Suc n) (c # cs) = (if isDigit c then digitsThen n cs else None)"

definition isPhoneSep :: "char \<Rightarrow> bool" where
  "isPhoneSep c = (c = CHR ''-'' \<or> c = CHR ''.'')"

definition optionalSep :: "(string \<Rightarrow> bool) \<Rightarrow> string \<Rightarrow> bool" where
  "optionalSep k s = (case s of [] \<Rightarrow> k [] | c # cs \<Rightarrow> (isPhoneSep c \<and> k cs) \<or> k s)"

definition phoneAt :: "string \<Rightarrow> bool" where
  "phoneAt s =
     (case digitsThen 3 s of
        None \<Rightarrow> False
      | Some s1 \<Rightarrow>
          optionalSep
            (\<lambda>s2. case digitsThen 3 s2 of
                     None \<Rightarrow> False
                   | Some s3 \<Rightarrow> optionalSep (\<lambda>s4. digitsThen 4 s4 \<noteq> None) s3)
            s1)"

fun phoneTest :: "string \<Rightarrow> bool" where
  "phoneTest [] = phoneAt []"
| "phoneTest (c # cs) = (phoneAt (c # cs) \<or> phoneTest cs)"

definition experienceKeywords :: "string list" where
  "experienceKeywords =
     [''experience'', ''worked'', ''managed'', ''led'', ''developed'', ''created'', ''achieved'']"

text \<open>
  \<^verbatim>\<open>content.match(/\b(javascript|python|java|sql|excel|project management|leadership)\b/g)\<close>:
  the matches are counted from left to right without overlap. \<^verbatim>\<open>\b\<close> holds between
  two positions when exactly one of the characters on its sides is a word character
  (no character counts as a non-word character). At a position the alternatives are
  tried in the order written, each followed by \<^verbatim>\<open>\b\<close>.
\<close>

definition technicalTerms :: "string list" where
  "technicalTerms =
     [''javascript'', ''python'', ''java'', ''sql'', ''excel'', ''project management'',
      ''leadership'']"

definition headIsWord :: "string \<Rightarrow> bool" where
  "headIsWord s = (case s of [] \<Rightarrow> False | c # _ \<Rightarrow> isWord c)"

definition termMatches :: "string \<Rightarrow> string \<Rightarrow> bool" where
  "termMatches s t =
     (startsWith s t
      \<and> (case rev t of [] \<Rightarrow> False | l # _ \<Rightarrow> isWord l) \<noteq> headIsWord (drop (length t) s))"

definition firstTermAt :: "bool \<Rightarrow> string \<Rightarrow> string option" where
  "firstTermAt prevIsWord s =
     (if prevIsWord \<noteq> headIsWord s then find (termMatches s) technicalTerms else None)"

text \<open>
  \<open>countTermMatches k prevIsWord s\<close>: the number of matches in \<open>s\<close>, where the next
  \<open>k\<close> characters belong to the match found last and \<open>prevIsWord\<close> tells whether the
  character before \<open>s\<close> is a word character.
\<close>

fun countTermMatches :: "nat \<Rightarrow> bool \<Rightarrow> string \<Rightarrow> nat" where
  "countTermMatches k prevIsWord [] = 0"
| "countTermMatches (Suc k) prevIsWord (c # cs) = countTermMatches k (isWord c) cs"
| "countTermMatches 0 prevIsWord (c # cs) =
     (case firstTermAt prevIsWord (c # cs) of
        Some t \<Rightarrow> 1 + countTermMatches (length t - 1) (isWord c) cs
      | None \<Rightarrow> countTermMatches 0 (isWord c) cs)"

definition generateQuickScore :: "string \<Rightarrow> int" where
  "generateQuickScore resumeContent =
     (let score = 0;
          content = toLowerCase resumeContent;
          wordCount = length (splitSpaces resumeContent);
          score = (if wordCount > 150 then score + 10 else score);
          score = (if wordCount > 300 then score + 10 else score);
          score = (if wordCount > 500 then score + 10 else score);
          score = (if str_includes content ''@'' \<or> str_includes content ''email''
                   then score + 10 else score);
          score = (if phoneTest content then score + 10 else score);
          experienceMatches =
            length (filter (\<lambda>keyword. str_includes content keyword) experienceKeywords);
          score = score + min 15 (int experienceMatches * 2);
          score = (if str_includes content ''education'' \<or> str_includes content ''degree''
                      \<or> str_includes content ''university''
                   then score + 5 else score);
          score = (if str_includes content ''bachelor'' \<or> str_includes content ''master''
                      \<or> str_includes content ''phd''
                   then score + 5 else score);
          score = (if str_includes content ''skills'' \<or> str_includes content ''technical''
                   then score + 5 else score);
          skillsCount = countTermMatches 0 False content;
          score = score + min 5 (int skillsCount)
      in min 100 score)"

text \<open>
  The claim's words for the quick-score boundary: the rubric's keywords, and a phone
  number in the format of \<^verbatim>\<open>555-123-4567\<close> (three digits, a dash, three digits, a
  dash, four digits).
\<close>

definition rubricKeywords :: "string list" where
  "rubricKeywords =
     experienceKeywords
     @ [''education'', ''degree'', ''university'', ''bachelor'', ''master'', ''phd'',
        ''skills'', ''technical'']
     @ technicalTerms"

definition dashedPhone :: "string \<Rightarrow> bool" where
  "dashedPhone p =
     (case p of
        [a, b, c, s, d, e, f, t, g, h, i, j] \<Rightarrow>
          list_all isDigit [a, b, c, d, e, f, g, h, i, j] \<and> s = CHR ''-'' \<and> t = CHR ''-''
      | _ \<Rightarrow> False)"

text \<open>
  Two sample texts for the boundaries: forty words without any signal of the rubric,
  and six hundred words that end with the lines of a resume.
\<close>

definition fortyWords :: string where
  "fortyWords = concat (replicate 39 ''lorem '') @ ''ipsum''"

definition resumeTail :: string where
  "resumeTail = ''Jane Roe jane@example.com 555-123-4567 Experience: worked on data, managed and led teams. Bachelor of Science, Skills: Python, SQL''"

definition sixHundredWords :: string where
  "sixHundredWords = concat (replicate 582 ''lorem '') @ resumeTail"

section \<open>Values of the host language\<close>

text \<open>
  A number is a double: not-a-number, one of the two infinities, or a finite value,
  kept as the rational it denotes (the two zeros are one value; no operation of the
  sources tells them apart). The sources only compare numbers and take minima and
  maxima, which are exact on doubles.
\<close>

datatype jsnum = NaN | NegInfinity | Finite rat | PosInfinity

text \<open>The operator \<^verbatim>\<open><\<close> on numbers: false whenever an operand is not a number.\<close>

fun js_less :: "jsnum \<Rightarrow> jsnum \<Rightarrow> bool" where
  "js_less NaN _ = False"
| "js_less _ NaN = False"
| "js_less _ NegInfinity = False"
| "js_less NegInfinity _ = True"
| "js_less PosInfinity _ = False"
| "js_less (Finite a) (Finite b) = (a < b)"
| "js_less (Finite a) PosInfinity = True"

text \<open>\<^verbatim>\<open>Math.min\<close> and \<^verbatim>\<open>Math.max\<close> of two numbers: not-a-number if either is.\<close>

definition Math_min :: "jsnum \<Rightarrow> jsnum \<Rightarrow> jsnum" where
  "Math_min a b = (if a = NaN \<or> b = NaN then NaN else if js_less b a then b else a)"

definition Math_max :: "jsnum \<Rightarrow> jsnum \<Rightarrow> jsnum" where
  "Math_max a b = (if a = NaN \<or> b = NaN then NaN else if js_less a b then b else a)"

text \<open>
  A value as \<^verbatim>\<open>JSON.parse\<close> builds it (null, booleans, numbers, strings, arrays and
  objects with their members in order), and \<^verbatim>\<open>undefined\<close>, which reading a missing
  member gives.
\<close>

datatype jsvalue =
    JUndefined
  | JNull
  | JBool bool
  | JNum jsnum
  | JStr string
  | JArr "jsvalue list"
  | JObj "(string \<times> jsvalue) list"

text \<open>
  What the sources throw: an \<^verbatim>\<open>Error\<close> with its message, or the \<^verbatim>\<open>TypeError\<close> the
  engine raises when a member of \<^verbatim>\<open>null\<close> or \<^verbatim>\<open>undefined\<close> is read or a value
  that is not a function is called.
\<close>

datatype js_error = Error string | TypeError

text \<open>
  The conversions between strings and numbers are the engine's; the model takes them
  as parameters, together with the message text of a \<^verbatim>\<open>TypeError\<close>.
\<close>

record engine =
  stringToNumber :: "string \<Rightarrow> jsnum"
  numberToString :: "jsnum \<Rightarrow> string"
  typeErrorMessage :: string

definition isNullish :: "jsvalue \<Rightarrow> bool" where
  "isNullish v = (v = JUndefined \<or> v = JNull)"

text \<open>
  \<open>member v k\<close> is the value of \<^verbatim>\<open>v.k\<close> for a value \<open>v\<close> that is not nullish and a
  name \<open>k\<close> that no prototype defines (all the names the sources read are such): the
  member of an object, \<^verbatim>\<open>undefined\<close> for a missing member and for every other kind
  of value. \<open>getProp\<close> is \<^verbatim>\<open>v.k\<close> in general and \<open>optProp\<close> is \<^verbatim>\<open>v?.k\<close>.
\<close>

definition member :: "jsvalue \<Rightarrow> string \<Rightarrow> jsvalue" where
  "member v k =
     (case v of
        JObj kvs \<Rightarrow> (case map_of kvs k of Some x \<Rightarrow> x | None \<Rightarrow> JUndefined)
      | _ \<Rightarrow> JUndefined)"

definition getProp :: "jsvalue \<Rightarrow> string \<Rightarrow> js_error + jsvalue" where
  "getProp v k = (if isNullish v then Inl TypeError else Inr (member v k))"

definition optProp :: "jsvalue \<Rightarrow> string \<Rightarrow> jsvalue" where
  "optProp v k = (if isNullish v then JUndefined else member v k)"

text \<open>Truthiness, for \<^verbatim>\<open>a || b\<close>.\<close>

fun truthy :: "jsvalue \<Rightarrow> bool" where
  "truthy JUndefined = False"
| "truthy JNull = False"
| "truthy (JBool b) = b"
| "truthy (JNum n) = (n \<noteq> NaN \<and> n \<noteq> Finite 0)"
| "truthy (JStr s) = (s \<noteq> [])"
| "truthy (JArr _) = True"
| "truthy (JObj _) = True"

definition orElse :: "jsvalue \<Rightarrow> jsvalue \<Rightarrow> jsvalue" where
  "orElse a b = (if truthy a then a else b)"

text \<open>
  The conversion of a value to a string: an array is the join of its elements with a
  comma, where \<^verbatim>\<open>null\<close> and \<^verbatim>\<open>undefined\<close> elements give the empty string.
\<close>

fun jsToString :: "engine \<Rightarrow> jsvalue \<Rightarrow> string" where
  "jsToString E JUndefined = ''undefined''"
| "jsToString E JNull = ''null''"
| "jsToString E (JBool b) = (if b then ''true'' else ''false'')"
| "jsToString E (JNum n) = numberToString E n"
| "jsToString E (JStr s) = s"
| "jsToString E (JArr xs) =
     join '','' (map (\<lambda>x. if x = JUndefined \<or> x = JNull then [] else jsToString E x) xs)"
| "jsToString E (JObj kvs) = ''[object Object]''"

text \<open>\<^verbatim>\<open>xs.join(sep)\<close> on an array of values.\<close>

definition arrayJoin :: "engine \<Rightarrow> string \<Rightarrow> jsvalue list \<Rightarrow> string" where
  "arrayJoin E sep xs =
     join sep (map (\<lambda>x. if x = JUndefined \<or> x = JNull then [] else jsToString E x) xs)"

text \<open>
  The conversion of a value to a number, as \<^verbatim>\<open>Math.min\<close> applies it to its
  arguments: an array or an object is first converted to a string.
\<close>

fun toNumber :: "engine \<Rightarrow> jsvalue \<Rightarrow> jsnum" where
  "toNumber E JUndefined = NaN"
| "toNumber E JNull = Finite 0"
| "toNumber E (JBool b) = (if b then Finite 1 else Finite 0)"
| "toNumber E (JNum n) = n"
| "toNumber E (JStr s) = stringToNumber E s"
| "toNumber E (JArr xs) = stringToNumber E (jsToString E (JArr xs))"
| "toNumber E (JObj kvs) = stringToNumber E (jsToString E (JObj kvs))"

text \<open>\<^verbatim>\<open>Array.isArray(v) ? v : []\<close>, as the list of the array's elements.\<close>

definition arrayOrEmpty :: "jsvalue \<Rightarrow> jsvalue list" where
  "arrayOrEmpty v = (case v of JArr xs \<Rightarrow> xs | _ \<Rightarrow> [])"

text \<open>\<^verbatim>\<open>v.toLowerCase()\<close>: a method of strings only; on any other value the call throws.\<close>

definition jsToLowerCase :: "jsvalue \<Rightarrow> js_error + string" where
  "jsToLowerCase v = (case v of JStr s \<Rightarrow> Inr (toLowerCase s) | _ \<Rightarrow> Inl TypeError)"

text \<open>
  \<^verbatim>\<open>find\<close>, \<^verbatim>\<open>some\<close> and \<^verbatim>\<open>filter\<close> of an array with a callback that may throw:
  the elements are visited in order, \<^verbatim>\<open>find\<close> and \<^verbatim>\<open>some\<close> stop at the first element
  the callback accepts, and an exception of the callback ends the call.
\<close>

fun findE :: "('a \<Rightarrow> js_error + bool) \<Rightarrow> 'a list \<Rightarrow> js_error + 'a option" where
  "findE p [] = Inr None"
| "findE p (x # xs) =
     (case p x of
        Inl e \<Rightarrow> Inl e
      | Inr b \<Rightarrow> if b then Inr (Some x) else findE p xs)"

fun someE :: "('a \<Rightarrow> js_error + bool) \<Rightarrow> 'a list \<Rightarrow> js_error + bool" where
  "someE p [] = Inr False"
| "someE p (x # xs) =
     (case p x of
        Inl e \<Rightarrow> Inl e
      | Inr b \<Rightarrow> if b then Inr True else someE p xs)"

fun filterE :: "('a \<Rightarrow> js_error + bool) \<Rightarrow> 'a list \<Rightarrow> js_error + 'a list" where
  "filterE p [] = Inr []"
| "filterE p (x # xs) =
     (case p x of
        Inl e \<Rightarrow> Inl e
      | Inr b \<Rightarrow>
          (case filterE p xs of
             Inl e \<Rightarrow> Inl e
           | Inr ys \<Rightarrow> Inr (if b then x # ys else ys)))"

section \<open>Response normalizer (resume-analyzer.ts, validateAndStructureAnalysis)\<close>

text \<open>
  The interface \<^verbatim>\<open>ResumeAnalysis\<close>. Types are erased when the program runs: the
  normalizer copies members of the raw payload without looking inside them, so the
  fields hold values as they are (\<open>sections\<close> and the other sequences are the
  elements of an array, whatever they are; \<open>summary\<close> is any value). The three
  scores come out of \<^verbatim>\<open>Math.max\<close> and are numbers.
\<close>

record KeyFindings =
  strengths :: "jsvalue list"
  majorIssues :: "jsvalue list"
  missingSkills :: "jsvalue list"
  atsCompatibility :: jsnum
  improvementPriority :: "jsvalue list"

record JobAlignment =
  matchScore :: jsnum
  relevantExperience :: "jsvalue list"
  skillGaps :: "jsvalue list"
  recommendations :: "jsvalue list"

record ResumeAnalysis =
  overallScore :: jsnum
  maxOverallScore :: jsnum
  summary :: jsvalue
  sections :: "jsvalue list"
  keyFindings :: KeyFindings
  jobAlignment :: JobAlignment

definition defaultAnalysis :: ResumeAnalysis where
  "defaultAnalysis =
     \<lparr>overallScore = Finite 0,
      maxOverallScore = Finite 100,
      summary = JStr ''Unable to generate analysis summary.'',
      sections = [],
      keyFindings =
        \<lparr>strengths = [], majorIssues = [], missingSkills = [], atsCompatibility = Finite 0,
         improvementPriority = []\<rparr>,
      jobAlignment =
        \<lparr>matchScore = Finite 0, relevantExperience = [], skillGaps = [], recommendations = []\<rparr>\<rparr>"

text \<open>
  The first member read, \<^verbatim>\<open>rawAnalysis.overallScore\<close>, throws when the payload is
  \<^verbatim>\<open>null\<close> or \<^verbatim>\<open>undefined\<close>; after it the payload is known not to be nullish and
  its members are read with \<open>member\<close>. The members of \<^verbatim>\<open>keyFindings\<close> and
  \<^verbatim>\<open>jobAlignment\<close> are read with \<^verbatim>\<open>?.\<close>.
\<close>

definition validateAndStructureAnalysis :: "engine \<Rightarrow> jsvalue \<Rightarrow> js_error + ResumeAnalysis" where
  "validateAndStructureAnalysis E rawAnalysis =
     (case getProp rawAnalysis ''overallScore'' of
        Inl e \<Rightarrow> Inl e
      | Inr rawOverallScore \<Rightarrow>
          let rawKeyFindings = member rawAnalysis ''keyFindings'';
              rawJobAlignment = member rawAnalysis ''jobAlignment''
          in Inr
            \<lparr>overallScore =
               Math_max (Finite 0)
                 (Math_min (Finite 100) (toNumber E (orElse rawOverallScore (JNum (Finite 0))))),
             maxOverallScore = Finite 100,
             summary = orElse (member rawAnalysis ''summary'') (summary defaultAnalysis),
             sections = arrayOrEmpty (member rawAnalysis ''sections''),
             keyFindings =
               \<lparr>strengths = arrayOrEmpty (optProp rawKeyFindings ''strengths''),
                majorIssues = arrayOrEmpty (optProp rawKeyFindings ''majorIssues''),
                missingSkills = arrayOrEmpty (optProp rawKeyFindings ''missingSkills''),
                atsCompatibility =
                  Math_max (Finite 0)
                    (Math_min (Finite 10)
                       (toNumber E
                          (orElse (optProp rawKeyFindings ''atsCompatibility'') (JNum (Finite 0))))),
                improvementPriority = arrayOrEmpty (optProp rawKeyFindings ''improvementPriority'')\<rparr>,
             jobAlignment =
               \<lparr>matchScore =
                  Math_max (Finite 0)
                    (Math_min (Finite 10)
                       (toNumber E
                          (orElse (optProp rawJobAlignment ''matchScore'') (JNum (Finite 0))))),
                relevantExperience = arrayOrEmpty (optProp rawJobAlignment ''relevantExperience''),
                skillGaps = arrayOrEmpty (optProp rawJobAlignment ''skillGaps''),
                recommendations = arrayOrEmpty (optProp rawJobAlignment ''recommendations'')\<rparr>\<rparr>)"





section \<open>Role catalog (types/resume.ts)\<close>

record JobRole =
  id_role :: string
  title :: string
  category :: string
  commonSkills :: "string list"

definition PREDEFINED_JOB_ROLES :: "JobRole list" where
  "PREDEFINED_JOB_ROLES =
     [\<lparr>id_role = ''data-scientist'', title = ''Data Scientist'', category = ''Technology'',
       commonSkills = [''Python'', ''R'', ''SQL'', ''Machine Learning'', ''Statistics'',
                       ''Data Visualization'', ''TensorFlow'', ''Pandas'', ''Numpy'']\<rparr>,
      \<lparr>id_role = ''product-manager'', title = ''Product Manager'', category = ''Management'',
       commonSkills = [''Product Strategy'', ''Agile/Scrum'', ''User Research'', ''Data Analysis'',
                       ''Stakeholder Management'', ''Roadmap Planning'', ''A/B Testing'']\<rparr>,
      \<lparr>id_role = ''software-engineer'', title = ''Software Engineer'', category = ''Technology'',
       commonSkills = [''Programming'', ''JavaScript'', ''Python'', ''Git'', ''APIs'',
                       ''Database Design'', ''Testing'', ''System Design'', ''DevOps'']\<rparr>,
      \<lparr>id_role = ''ux-designer'', title = ''UX Designer'', category = ''Design'',
       commonSkills = [''User Research'', ''Wireframing'', ''Prototyping'', ''Figma'',
                       ''Adobe Creative Suite'', ''Information Architecture'',
                       ''Usability Testing'']\<rparr>,
      \<lparr>id_role = ''marketing-manager'', title = ''Marketing Manager'', category = ''Marketing'',
       commonSkills = [''Digital Marketing'', ''Content Strategy'', ''SEO/SEM'', ''Social Media'',
                       ''Analytics'', ''Campaign Management'', ''Brand Management'']\<rparr>,
      \<lparr>id_role = ''business-analyst'', title = ''Business Analyst'', category = ''Analysis'',
       commonSkills = [''Requirements Analysis'', ''Process Mapping'', ''SQL'', ''Data Analysis'',
                       ''Stakeholder Communication'', ''Project Management'', ''Documentation'']\<rparr>,
      \<lparr>id_role = ''sales-representative'', title = ''Sales Representative'', category = ''Sales'',
       commonSkills = [''Lead Generation'', ''Customer Relationship Management'', ''Negotiation'',
                       ''Sales Process'', ''CRM Software'', ''Communication'', ''Cold Calling'']\<rparr>,
      \<lparr>id_role = ''project-manager'', title = ''Project Manager'', category = ''Management'',
       commonSkills = [''Project Planning'', ''Risk Management'', ''Team Leadership'',
                       ''Agile/Scrum'', ''Budget Management'', ''Stakeholder Communication'',
                       ''Timeline Management'']\<rparr>]"

section \<open>Role-insight enricher (resume-analyzer.ts)\<close>

text \<open>
  \<^verbatim>\<open>s.replace(/\s+/g, '-')\<close>: every maximal run of white space becomes one hyphen.
  The flag says that the character before was white space.
\<close>

fun replaceSpaceRuns :: "bool \<Rightarrow> string \<Rightarrow> string" where
  "replaceSpaceRuns inRun [] = []"
| "replaceSpaceRuns inRun (c # cs) =
     (if isSpace c
      then (if inRun then replaceSpaceRuns True cs else CHR ''-'' # replaceSpaceRuns True cs)
      else c # replaceSpaceRuns False cs)"

text \<open>The callback of the lookup \<^verbatim>\<open>PREDEFINED_JOB_ROLES.find(role => ...)\<close>.\<close>

definition roleMatches :: "string \<Rightarrow> JobRole \<Rightarrow> bool" where
  "roleMatches jobRole role =
     (toLowerCase (title role) = toLowerCase jobRole
      \<or> id_role role = replaceSpaceRuns False (toLowerCase jobRole))"

text \<open>\<^verbatim>\<open>section.name.toLowerCase().includes(word)\<close>, the test of a section by its name.\<close>

definition sectionNameIncludes :: "string \<Rightarrow> jsvalue \<Rightarrow> js_error + bool" where
  "sectionNameIncludes word section =
     (case getProp section ''name'' of
        Inl e \<Rightarrow> Inl e
      | Inr name \<Rightarrow>
          (case jsToLowerCase name of
             Inl e \<Rightarrow> Inl e
           | Inr lowered \<Rightarrow> Inr (str_includes lowered word)))"

text \<open>\<^verbatim>\<open>missing.toLowerCase().includes(word)\<close>, the test of an entry of a list of skills.\<close>

definition entryIncludes :: "string \<Rightarrow> jsvalue \<Rightarrow> js_error + bool" where
  "entryIncludes word entry =
     (case jsToLowerCase entry of
        Inl e \<Rightarrow> Inl e
      | Inr lowered \<Rightarrow> Inr (str_includes lowered word))"

text \<open>
  \<^verbatim>\<open>analysis.sections.find(section => section.name.toLowerCase().includes('skill'))
  ?.feedback.join(' ').toLowerCase() || ''\<close>: the empty text when no section is found;
  otherwise \<^verbatim>\<open>feedback\<close> must be an array (of any other value, \<^verbatim>\<open>join\<close> is not a
  function, and the call throws).
\<close>

definition skillsSectionText :: "engine \<Rightarrow> ResumeAnalysis \<Rightarrow> js_error + string" where
  "skillsSectionText E analysis =
     (case findE (sectionNameIncludes ''skill'') (sections analysis) of
        Inl e \<Rightarrow> Inl e
      | Inr None \<Rightarrow> Inr []
      | Inr (Some section) \<Rightarrow>
          (case member section ''feedback'' of
             JArr feedback \<Rightarrow> Inr (toLowerCase (arrayJoin E '' '' feedback))
           | _ \<Rightarrow> Inl TypeError))"

text \<open>
  The callback of \<^verbatim>\<open>commonSkills.filter(skill => ...)\<close>: the skill is neither in the
  text of the skills section nor inside an entry of the missing skills. The second
  test runs only when the first one holds.
\<close>

definition isMissingSkill :: "string \<Rightarrow> jsvalue list \<Rightarrow> string \<Rightarrow> js_error + bool" where
  "isMissingSkill resumeText missing skill =
     (if \<not> str_includes resumeText (toLowerCase skill)
      then (case someE (entryIncludes (toLowerCase skill)) missing of
              Inl e \<Rightarrow> Inl e
            | Inr found \<Rightarrow> Inr (\<not> found))
      else Inr False)"

text \<open>
  \<^verbatim>\<open>predefinedRole.commonSkills.find(cs => cs.toLowerCase() === skill) || skill\<close>: the
  catalog's spelling of a lower-cased skill.
\<close>

definition catalogSpelling :: "JobRole \<Rightarrow> string \<Rightarrow> string" where
  "catalogSpelling role skill =
     (case find (\<lambda>cs. toLowerCase cs = skill) (commonSkills role) of
        Some cs \<Rightarrow> if cs \<noteq> [] then cs else skill
      | None \<Rightarrow> skill)"

text \<open>
  \<^verbatim>\<open>Array.from(new Set(xs))\<close>: the first occurrence of every element, in order.
\<close>

fun uniqueInOrder :: "'a list \<Rightarrow> 'a list" where
  "uniqueInOrder [] = []"
| "uniqueInOrder (x # xs) = x # uniqueInOrder (filter (\<lambda>y. y \<noteq> x) xs)"

text \<open>
  The \<^verbatim>\<open>switch\<close> of \<^verbatim>\<open>generateRoleSpecificRecommendations\<close> over the lower-cased
  category: the recommendations pushed, in order; no category of the switch, none.
\<close>

definition categoryRecommendations :: "JobRole \<Rightarrow> ResumeAnalysis \<Rightarrow> js_error + string list" where
  "categoryRecommendations role analysis =
     (let categoryName = toLowerCase (category role) in
      if categoryName = ''technology'' then
        Inr ((if js_less (overallScore analysis) (Finite 70)
              then [''Consider adding more specific technical projects that demonstrate ''
                    @ join '', '' (take 3 (commonSkills role)) @ '' experience'']
              else [])
             @ [''Ensure your technical skills section includes both the technologies you used and the context/projects where you applied them''])
      else if categoryName = ''management'' then
        (case someE (entryIncludes ''leadership'') (missingSkills (keyFindings analysis)) of
           Inl e \<Rightarrow> Inl e
         | Inr lacksLeadership \<Rightarrow>
             Inr ((if lacksLeadership
                   then [''Add specific examples of team leadership, project management, and stakeholder communication achievements'']
                   else [])
                  @ [''Quantify your management impact with team sizes, budget responsibilities, and measurable outcomes'']))
      else if categoryName = ''design'' then
        Inr ([''Include a portfolio link and mention specific design tools, methodologies, and user research experience'']
             @ (if js_less (overallScore analysis) (Finite 75)
                then [''Highlight user-centered design processes and measurable improvements to user experience'']
                else []))
      else if categoryName = ''marketing'' then
        (case someE (sectionNameIncludes ''project'') (sections analysis) of
           Inl e \<Rightarrow> Inl e
         | Inr hasProjects \<Rightarrow>
             Inr ([''Include specific metrics for campaigns, growth rates, and ROI to demonstrate marketing impact'']
                  @ (if \<not> hasProjects
                     then [''Add a projects section showcasing successful marketing campaigns and their measurable results'']
                     else [])))
      else if categoryName = ''sales'' then
        Inr [''Quantify sales achievements with specific numbers, percentages, and quota attainment records'',
             ''Highlight relationship-building skills and experience with CRM systems and sales processes'']
      else if categoryName = ''analysis'' then
        (case someE (entryIncludes ''sql'') (missingSkills (keyFindings analysis)) of
           Inl e \<Rightarrow> Inl e
         | Inr lacksSql \<Rightarrow>
             Inr ([''Emphasize analytical methodologies, data sources, and business impact of your analytical work'']
                  @ (if lacksSql
                     then [''Consider adding SQL, Excel, or other data analysis tools to strengthen your technical profile'']
                     else [])))
      else Inr [])"

text \<open>
  \<^verbatim>\<open>return Array.from(new Set(recommendations)).slice(0, 3)\<close> after the switch.
\<close>

definition generateRoleSpecificRecommendations ::
  "JobRole \<Rightarrow> ResumeAnalysis \<Rightarrow> js_error + string list" where
  "generateRoleSpecificRecommendations role analysis =
     (case categoryRecommendations role analysis of
        Inl e \<Rightarrow> Inl e
      | Inr pushed \<Rightarrow> Inr (take 3 (uniqueInOrder pushed)))"

text \<open>
  The enricher changes the analysis in place (\<^verbatim>\<open>push\<close>) and returns it; the model
  returns the updated record. The recommendations are generated from the analysis
  after the missing skills have been pushed.
\<close>

definition enhanceAnalysisWithJobInsights ::
  "engine \<Rightarrow> ResumeAnalysis \<Rightarrow> string \<Rightarrow> js_error + ResumeAnalysis" where
  "enhanceAnalysisWithJobInsights E analysis jobRole =
     (case find (roleMatches jobRole) PREDEFINED_JOB_ROLES of
        None \<Rightarrow> Inr analysis
      | Some predefinedRole \<Rightarrow>
          let commonSkillsLower = map toLowerCase (commonSkills predefinedRole) in
          (case skillsSectionText E analysis of
             Inl e \<Rightarrow> Inl e
           | Inr resumeText \<Rightarrow>
               (case filterE (isMissingSkill resumeText (missingSkills (keyFindings analysis)))
                       commonSkillsLower of
                  Inl e \<Rightarrow> Inl e
                | Inr missingCommonSkills \<Rightarrow>
                    let newMissingSkills =
                          filter (\<lambda>skill. JStr skill \<notin> set (missingSkills (keyFindings analysis)))
                            (map (catalogSpelling predefinedRole) missingCommonSkills);
                        analysis1 =
                          (if length missingCommonSkills > 0
                           then analysis
                                  \<lparr>keyFindings := (keyFindings analysis)
                                     \<lparr>missingSkills := missingSkills (keyFindings analysis)
                                                         @ map JStr newMissingSkills\<rparr>\<rparr>
                           else analysis)
                    in (case generateRoleSpecificRecommendations predefinedRole analysis1 of
                          Inl e \<Rightarrow> Inl e
                        | Inr roleSpecificRecommendations \<Rightarrow>
                            Inr (analysis1
                                   \<lparr>jobAlignment := (jobAlignment analysis1)
                                      \<lparr>recommendations := recommendations (jobAlignment analysis1)
                                                            @ map JStr roleSpecificRecommendations\<rparr>\<rparr>)))))"

text \<open>
  The claims' words. An analysis is well-typed, as the interface \<^verbatim>\<open>ResumeAnalysis\<close>
  declares it, when every section is an object whose \<^verbatim>\<open>name\<close> is a string and whose
  \<^verbatim>\<open>feedback\<close> is an array of strings, and every entry of the missing skills is a
  string (the enricher reads nothing else). \<open>stringsOf\<close> reads the strings of a list.
\<close>

definition isString :: "jsvalue \<Rightarrow> bool" where
  "isString v = (case v of JStr _ \<Rightarrow> True | _ \<Rightarrow> False)"

definition stringOf :: "jsvalue \<Rightarrow> string" where
  "stringOf v = (case v of JStr s \<Rightarrow> s | _ \<Rightarrow> [])"

definition wellTypedSection :: "jsvalue \<Rightarrow> bool" where
  "wellTypedSection s =
     (isString (member s ''name'')
      \<and> (case member s ''feedback'' of JArr fs \<Rightarrow> list_all isString fs | _ \<Rightarrow> False))"

definition wellTyped :: "ResumeAnalysis \<Rightarrow> bool" where
  "wellTyped analysis =
     (list_all wellTypedSection (sections analysis)
      \<and> list_all isString (missingSkills (keyFindings analysis)))"

text \<open>
  The joined feedback text of the section whose name contains \<^verbatim>\<open>skill\<close> (the first
  such section), in lower case, and the empty text when there is none; a catalog skill
  is new when it occurs neither in that text nor inside an entry of the missing skills
  (both tests in lower case).
\<close>

definition skillsFeedbackText :: "ResumeAnalysis \<Rightarrow> string" where
  "skillsFeedbackText analysis =
     (case find (\<lambda>s. str_includes (toLowerCase (stringOf (member s ''name''))) ''skill'')
             (sections analysis) of
        None \<Rightarrow> []
      | Some s \<Rightarrow> toLowerCase (join '' '' (map stringOf (arrayOrEmpty (member s ''feedback'')))))"

definition skillIsNew :: "ResumeAnalysis \<Rightarrow> string \<Rightarrow> bool" where
  "skillIsNew analysis skill =
     (\<not> str_includes (skillsFeedbackText analysis) (toLowerCase skill)
      \<and> \<not> list_ex (\<lambda>m. str_includes (toLowerCase (stringOf m)) (toLowerCase skill))
             (missingSkills (keyFindings analysis)))"

text \<open>
  A list is extended by another when the other starts with all its entries, in order.
  Enrichment keeps an analysis when the overall score is not lower afterwards and every
  list field is extended. \<open>withInsights\<close> is an analysis with entries appended to its
  missing skills and to its recommendations.
\<close>

definition extendedBy :: "'a list \<Rightarrow> 'a list \<Rightarrow> bool" where
  "extendedBy xs ys = (take (length xs) ys = xs)"

definition enrichmentKeeps :: "ResumeAnalysis \<Rightarrow> ResumeAnalysis \<Rightarrow> bool" where
  "enrichmentKeeps a a' =
     (\<not> js_less (overallScore a') (overallScore a)
      \<and> extendedBy (sections a) (sections a')
      \<and> extendedBy (strengths (keyFindings a)) (strengths (keyFindings a'))
      \<and> extendedBy (majorIssues (keyFindings a)) (majorIssues (keyFindings a'))
      \<and> extendedBy (missingSkills (keyFindings a)) (missingSkills (keyFindings a'))
      \<and> extendedBy (improvementPriority (keyFindings a)) (improvementPriority (keyFindings a'))
      \<and> extendedBy (relevantExperience (jobAlignment a)) (relevantExperience (jobAlignment a'))
      \<and> extendedBy (skillGaps (jobAlignment a)) (skillGaps (jobAlignment a'))
      \<and> extendedBy (recommendations (jobAlignment a)) (recommendations (jobAlignment a')))"

definition withInsights :: "ResumeAnalysis \<Rightarrow> jsvalue list \<Rightarrow> jsvalue list \<Rightarrow> ResumeAnalysis" where
  "withInsights a ms rs =
     a\<lparr>keyFindings := (keyFindings a)\<lparr>missingSkills := missingSkills (keyFindings a) @ ms\<rparr>,
       jobAlignment := (jobAlignment a)\<lparr>recommendations := recommendations (jobAlignment a) @ rs\<rparr>\<rparr>"

text \<open>A sample analysis, well-typed, with a skills section and one missing skill.\<close>

definition sampleAnalysis :: ResumeAnalysis where
  "sampleAnalysis =
     \<lparr>overallScore = Finite 62,
      maxOverallScore = Finite 100,
      summary = JStr ''Solid profile.'',
      sections =
        [JObj [(''name'', JStr ''Experience''), (''score'', JNum (Finite 6)),
               (''feedback'', JArr [JStr ''Two analyst roles''])],
         JObj [(''name'', JStr ''Technical Skills''), (''score'', JNum (Finite 7)),
               (''feedback'', JArr [JStr ''Lists Python and SQL'', JStr ''No statistics tools''])]],
      keyFindings =
        \<lparr>strengths = [JStr ''Clear layout''], majorIssues = [],
         missingSkills = [JStr ''Machine learning basics''],
         atsCompatibility = Finite 8, improvementPriority = []\<rparr>,
      jobAlignment =
        \<lparr>matchScore = Finite 6, relevantExperience = [], skillGaps = [],
         recommendations = [JStr ''Tailor the summary'']\<rparr>\<rparr>"

section \<open>Analysis requester (openai.ts and resume-analyzer.ts, analyzeResume)\<close>

datatype ResumeType = pdf_resume | text_resume

record ResumeInput =
  content :: string
  filename :: "string option"
  type :: ResumeType

text \<open>
  What the module \<^verbatim>\<open>openai.ts\<close> reads from outside: the environment variable with the
  key, the request \<^verbatim>\<open>openai.chat.completions.create\<close> (given the system and the user
  message it throws, or returns the contents of the choices of the completion,
  \<open>None\<close> for a content that is \<^verbatim>\<open>null\<close>), and \<^verbatim>\<open>JSON.parse\<close>. An \<open>Error\<close> stands
  for an error object of any class with the message given.
\<close>

record openai_client =
  OPENAI_API_KEY :: "string option"
  createCompletion :: "string \<Rightarrow> string \<Rightarrow> js_error + string option list"
  JSON_parse :: "string \<Rightarrow> js_error + jsvalue"

definition RESUME_ANALYSIS_SYSTEM_PROMPT :: string where
  \<open>RESUME_ANALYSIS_SYSTEM_PROMPT =
     ''You are an expert resume reviewer and career counselor with 15+ years of experience in recruitment and talent acquisition. Your task is to provide comprehensive, constructive feedback on resumes to help job seekers optimize their applications for specific roles.\<newline>''
     @ ''\<newline>''
     @ ''Analyze resumes across these key dimensions:\<newline>''
     @ ''1. **Contact Information**: Completeness, professionalism, ATS compatibility\<newline>''
     @ ''2. **Professional Summary**: Relevance, impact, keyword optimization\<newline>''
     @ ''3. **Work Experience**: Achievement focus, quantifiable results, relevance to target role\<newline>''
     @ ''4. **Education**: Relevance, presentation, additional qualifications\<newline>''
     @ ''5. **Skills**: Technical/soft skill balance, role alignment, credibility\<newline>''
     @ ''6. **Projects**: Innovation, business impact, technical complexity\<newline>''
     @ ''7. **Certifications**: Industry relevance, recency, credibility\<newline>''
     @ ''8. **Overall Formatting**: ATS compatibility, readability, professional appearance\<newline>''
     @ ''\<newline>''
     @ ''For each section, provide:\<newline>''
     @ ''- **Score** (0-10 scale)\<newline>''
     @ ''- **Specific feedback** with actionable improvements\<newline>''
     @ ''- **Strengths** to highlight and expand\<newline>''
     @ ''- **Issues** that need immediate attention\<newline>''
     @ ''- **Suggestions** for enhancement\<newline>''
     @ ''\<newline>''
     @ ''Focus on:\<newline>''
     @ ''- **Job-role alignment** - How well does the resume match the target position?\<newline>''
     @ ''- **ATS optimization** - Will this pass applicant tracking systems?\<newline>''
     @ ''- **Achievement quantification** - Are accomplishments measurable and impactful?\<newline>''
     @ ''- **Keyword optimization** - Does it include relevant industry terms?\<newline>''
     @ ''- **Professional presentation** - Is it clean, readable, and well-structured?\<newline>''
     @ ''\<newline>''
     @ ''Be constructive, specific, and actionable in your feedback. Prioritize improvements by impact.''\<close>

text \<open>The fixed part of the user message, after the resume content.\<close>

definition ANALYSIS_INSTRUCTIONS :: string where
  \<open>ANALYSIS_INSTRUCTIONS =
     ''**Instructions:**\<newline>''
     @ ''Please analyze this resume for the specified role and provide a comprehensive review in the following JSON format:\<newline>''
     @ ''\<newline>''
     @ ''{\<newline>''
     @ ''  "overallScore": <number 0-100>,\<newline>''
     @ ''  "maxOverallScore": 100,\<newline>''
     @ ''  "summary": "<2-3 sentence overall assessment>",\<newline>''
     @ ''  "sections": [\<newline>''
     @ ''    {\<newline>''
     @ ''      "name": "<section name>",\<newline>''
     @ ''      "score": <number 0-10>,\<newline>''
     @ ''      "maxScore": 10,\<newline>''
     @ ''      "feedback": ["<specific feedback point 1>", "<specific feedback point 2>"],\<newline>''
     @ ''      "suggestions": ["<improvement suggestion 1>", "<improvement suggestion 2>"],\<newline>''
     @ ''      "strengths": ["<strength 1>", "<strength 2>"],\<newline>''
     @ ''      "issues": ["<issue 1>", "<issue 2>"]\<newline>''
     @ ''    }\<newline>''
     @ ''  ],\<newline>''
     @ ''  "keyFindings": {\<newline>''
     @ ''    "strengths": ["<top 3-5 resume strengths>"],\<newline>''
     @ ''    "majorIssues": ["<top 3-5 critical issues to fix>"],\<newline>''
     @ ''    "missingSkills": ["<skills mentioned in job role/description but missing from resume>"],\<newline>''
     @ ''    "atsCompatibility": <number 0-10>,\<newline>''
     @ ''    "improvementPriority": ["<top 3 improvements in priority order>"]\<newline>''
     @ ''  },\<newline>''
     @ ''  "jobAlignment": {\<newline>''
     @ ''    "matchScore": <number 0-10>,\<newline>''
     @ ''    "relevantExperience": ["<relevant experience highlights>"],\<newline>''
     @ ''    "skillGaps": ["<skills gaps compared to job requirements>"],\<newline>''
     @ ''    "recommendations": ["<top 3 tailoring recommendations>"]\<newline>''
     @ ''  }\<newline>''
     @ ''}\<newline>''
     @ ''\<newline>''
     @ ''Ensure all scores are realistic and justified. Focus on actionable, specific feedback that will genuinely improve the candidate'' @ [CHR 0x27] @ ''s chances.''\<close>

text \<open>The job description takes the place of the job role when it is given and not empty.\<close>

definition createResumeAnalysisPrompt :: "string \<Rightarrow> string \<Rightarrow> string option \<Rightarrow> string" where
  "createResumeAnalysisPrompt resumeContent jobRole jobDescription =
     (let jobContext =
            (case jobDescription of
               Some description \<Rightarrow>
                 if description \<noteq> []
                 then ''**Target Job Description:**\<newline>'' @ description @ ''\<newline>\<newline>''
                 else ''**Target Job Role:** '' @ jobRole @ ''\<newline>\<newline>''
             | None \<Rightarrow> ''**Target Job Role:** '' @ jobRole @ ''\<newline>\<newline>'')
      in jobContext @ ''**Resume Content:**\<newline>'' @ resumeContent @ ''\<newline>\<newline>''
         @ ANALYSIS_INSTRUCTIONS)"

definition validateOpenAIKey :: "openai_client \<Rightarrow> bool" where
  "validateOpenAIKey client =
     (case OPENAI_API_KEY client of
        None \<Rightarrow> False
      | Some apiKey \<Rightarrow> length apiKey > 0 \<and> apiKey \<noteq> ''your-openai-api-key-here'')"

text \<open>
  \<open>callOpenAI\<close> returns what the function returns or throws, together with the
  requests it has sent to the external service, in order: at most one, and none when
  the key is not configured.
\<close>

definition callOpenAI ::
  "openai_client \<Rightarrow> string \<Rightarrow> string \<Rightarrow> (js_error + jsvalue) \<times> (string \<times> string) list" where
  "callOpenAI client prompt systemPrompt =
     (if \<not> validateOpenAIKey client
      then (Inl (Error ''OpenAI API key is not configured. Please set OPENAI_API_KEY environment variable.''),
            [])
      else
        (case createCompletion client systemPrompt prompt of
           Inl e \<Rightarrow> (Inl e, [(systemPrompt, prompt)])
         | Inr choices \<Rightarrow>
             (case (case choices of [] \<Rightarrow> None | first # _ \<Rightarrow> first) of
                None \<Rightarrow> (Inl (Error ''No response received from OpenAI API''), [(systemPrompt, prompt)])
              | Some response \<Rightarrow>
                  if response = []
                  then (Inl (Error ''No response received from OpenAI API''),
                        [(systemPrompt, prompt)])
                  else (JSON_parse client response, [(systemPrompt, prompt)]))))"

text \<open>The message of a caught error; the text of a \<^verbatim>\<open>TypeError\<close> is the engine's.\<close>

definition errorMessage :: "engine \<Rightarrow> js_error \<Rightarrow> string" where
  "errorMessage E e = (case e of Error m \<Rightarrow> m | TypeError \<Rightarrow> typeErrorMessage E)"

text \<open>
  \<open>analyzeResume\<close> returns the analysis or the error thrown, together with the requests
  sent to the external service. Whatever is thrown inside the \<^verbatim>\<open>try\<close> block is caught
  and thrown again as an error whose message starts with
  \<^verbatim>\<open>Failed to analyze resume: \<close>.
\<close>

definition analyzeResume ::
  "engine \<Rightarrow> openai_client \<Rightarrow> ResumeInput \<Rightarrow> string \<Rightarrow> string option
     \<Rightarrow> (js_error + ResumeAnalysis) \<times> (string \<times> string) list" where
  "analyzeResume E client resumeInput jobRole jobDescription =
     (let attempt =
            (if content resumeInput = [] \<or> length (trim (content resumeInput)) < 100
             then (Inl (Error ''Resume content is too short or empty. Please provide a complete resume.''),
                   [])
             else if jobRole = [] \<or> length (trim jobRole) = 0
             then (Inl (Error ''Job role is required for targeted analysis.''), [])
             else
               let prompt = createResumeAnalysisPrompt (content resumeInput) jobRole jobDescription;
                   called = callOpenAI client prompt RESUME_ANALYSIS_SYSTEM_PROMPT
               in (case fst called of
                     Inl e \<Rightarrow> Inl e
                   | Inr rawAnalysis \<Rightarrow>
                       (case validateAndStructureAnalysis E rawAnalysis of
                          Inl e \<Rightarrow> Inl e
                        | Inr analysis \<Rightarrow> enhanceAnalysisWithJobInsights E analysis jobRole),
                   snd called))
      in (case fst attempt of
            Inl e \<Rightarrow> Inl (Error (''Failed to analyze resume: '' @ errorMessage E e))
          | Inr enhancedAnalysis \<Rightarrow> Inr enhancedAnalysis,
          snd attempt))"

text \<open>
  The claim's words: an invalid-input error is one the route \<^verbatim>\<open>POST\<close> answers with
  status 400, which it tells by the message (\<^verbatim>\<open>too short\<close> or \<^verbatim>\<open>required\<close> occurs in
  it). The sample is a text of 120 characters with an e-mail address and an experience
  line.
\<close>

definition isInvalidInput :: "js_error \<Rightarrow> bool" where
  "isInvalidInput e =
     (case e of
        Error m \<Rightarrow> str_includes m ''too short'' \<or> str_includes m ''required''
      | TypeError \<Rightarrow> False)"

definition sampleResumeInput :: ResumeInput where
  "sampleResumeInput =
     \<lparr>content = ''Jane Roe, jane.roe@example.com. Experience: five years as a data analyst at Acme Corp, building weekly sales dashboards.'',
      filename = None,
      type = text_resume\<rparr>"

section \<open>Text normalizer (pdf-parser.ts, cleanExtractedText)\<close>

text \<open>
  Every \<^verbatim>\<open>replace\<close> of the chain has the flag g: the matches are found from left to
  right on the text as it enters the stage, without overlap, and each is replaced. Each
  stage is a function of its own, named after what the stage does.
\<close>

definition LF :: char where
  "LF = CHR 0x0A"

definition CR :: char where
  "CR = CHR 0x0D"

definition SP :: char where
  "SP = CHR 0x20"

definition TAB :: char where
  "TAB = CHR 0x09"

text \<open>\<^verbatim>\<open>.replace(/\r\n/g, '\n')\<close>\<close>

fun crlfToLf :: "string \<Rightarrow> string" where
  "crlfToLf (c # d # cs) =
     (if c = CR \<and> d = LF then LF # crlfToLf cs else c # crlfToLf (d # cs))"
| "crlfToLf cs = cs"

text \<open>\<^verbatim>\<open>.replace(/\r/g, '\n')\<close>\<close>

definition crToLf :: "string \<Rightarrow> string" where
  "crToLf s = map (\<lambda>c. if c = CR then LF else c) s"

text \<open>
  \<^verbatim>\<open>.replace(/X{n,}/g, r)\<close> for a class \<open>X\<close> of characters: a maximal run of at least
  \<open>n\<close> characters of the class becomes \<open>r\<close>, a shorter run stays. \<open>run\<close> is the run
  read so far. The stages are \<^verbatim>\<open>.replace(/\n{3,}/g, '\n\n')\<close> and
  \<^verbatim>\<open>.replace(/[ \t]{2,}/g, ' ')\<close>.
\<close>

definition closeRun :: "nat \<Rightarrow> string \<Rightarrow> string \<Rightarrow> string" where
  "closeRun n r run = (if n \<le> length run then r else run)"

fun collapseRuns :: "(char \<Rightarrow> bool) \<Rightarrow> nat \<Rightarrow> string \<Rightarrow> string \<Rightarrow> string \<Rightarrow> string" where
  "collapseRuns X n r run [] = closeRun n r run"
| "collapseRuns X n r run (c # cs) =
     (if X c then collapseRuns X n r (run @ [c]) cs
      else closeRun n r run @ c # collapseRuns X n r [] cs)"

definition collapseNewlines :: "string \<Rightarrow> string" where
  "collapseNewlines s = collapseRuns (\<lambda>c. c = LF) 3 [LF, LF] [] s"

definition collapseBlanks :: "string \<Rightarrow> string" where
  "collapseBlanks s = collapseRuns (\<lambda>c. c = SP \<or> c = TAB) 2 [SP] [] s"

text \<open>\<^verbatim>\<open>.replace(/[^\x20-\x7E\n]/g, '')\<close>\<close>

definition keepPrintable :: "string \<Rightarrow> string" where
  "keepPrintable s = filter isPrintableOrLF s"

text \<open>
  \<^verbatim>\<open>.replace(/^\s*[\d\s]*\s*$/gm, '')\<close>. A match starts at the start of a line and
  consists of digits and white space (line terminators are white space) up to the end
  of a line; of the ends of line that can be reached, backtracking finds the last one.
  So, from the start of a line: when only digits and white space follow up to the end of
  the text, all of it is removed; when the digits and white space before the next other
  character contain a line terminator, everything before the last such terminator is
  removed; otherwise nothing is. The state is \<open>Some pending\<close> at the start of a line,
  with the digits and white space read since, and \<open>None\<close> inside a line after
  another character.
\<close>

fun fromLastTerminator :: "string \<Rightarrow> string" where
  "fromLastTerminator [] = []"
| "fromLastTerminator (c # cs) =
     (if list_ex isLineTerminator cs then fromLastTerminator cs else c # cs)"

fun removeNumberLines :: "string option \<Rightarrow> string \<Rightarrow> string" where
  "removeNumberLines None [] = []"
| "removeNumberLines (Some pending) [] = []"
| "removeNumberLines None (c # cs) =
     c # removeNumberLines (if isLineTerminator c then Some [] else None) cs"
| "removeNumberLines (Some pending) (c # cs) =
     (if isDigit c \<or> isSpace c then removeNumberLines (Some (pending @ [c])) cs
      else fromLastTerminator pending @ c # removeNumberLines None cs)"

text \<open>
  \<^verbatim>\<open>.replace(/(P)(Q)/g, '$1 $2')\<close> for two classes of characters: a space is put
  between a character of \<open>P\<close> and a character of \<open>Q\<close> that follows it, and the search
  goes on after the two. The stages are \<^verbatim>\<open>([a-z])([A-Z])\<close>, \<^verbatim>\<open>(\w)(\d)\<close> and
  \<^verbatim>\<open>(\d)(\w)\<close>.
\<close>

fun spaceBetween :: "(char \<Rightarrow> bool) \<Rightarrow> (char \<Rightarrow> bool) \<Rightarrow> string \<Rightarrow> string" where
  "spaceBetween P Q (a # b # cs) =
     (if P a \<and> Q b then a # SP # b # spaceBetween P Q cs
      else a # spaceBetween P Q (b # cs))"
| "spaceBetween P Q cs = cs"

text \<open>
  \<^verbatim>\<open>.replace(/\n\s*\n/g, '\n\n')\<close>. A match starts at a newline and runs over white
  space to the last newline of that white space. The state is \<open>Some pending\<close> after
  a newline, with the white space read since, and \<open>None\<close> otherwise.
\<close>

definition afterLastNewline :: "string \<Rightarrow> string" where
  "afterLastNewline s = rev (takeWhile (\<lambda>c. c \<noteq> LF) (rev s))"

definition closeBreak :: "string \<Rightarrow> string" where
  "closeBreak pending =
     (if LF \<in> set pending then LF # LF # afterLastNewline pending else LF # pending)"

fun paragraphBreaks :: "string option \<Rightarrow> string \<Rightarrow> string" where
  "paragraphBreaks None [] = []"
| "paragraphBreaks (Some pending) [] = closeBreak pending"
| "paragraphBreaks None (c # cs) =
     (if c = LF then paragraphBreaks (Some []) cs else c # paragraphBreaks None cs)"
| "paragraphBreaks (Some pending) (c # cs) =
     (if isSpace c then paragraphBreaks (Some (pending @ [c])) cs
      else closeBreak pending @ c # paragraphBreaks None cs)"

definition cleanExtractedText :: "string \<Rightarrow> string" where
  "cleanExtractedText text =
     (if text = [] then []
      else
        trim
          (paragraphBreaks None
             (spaceBetween isDigit isWord
                (spaceBetween isWord isDigit
                   (spaceBetween isLowerAZ isUpperAZ
                      (removeNumberLines (Some [])
                         (keepPrintable
                            (collapseBlanks
                               (collapseNewlines
                                  (crToLf (crlfToLf text)))))))))))"

text \<open>
  Measures for the facts about the length of the result. A join is a place where the
  stages that insert a space can match: a lowercase letter before an uppercase one, a
  word character before a digit, a digit before a word character. \<open>joins\<close> counts the
  joins of a text. \<open>shrinks out inp\<close> says that \<open>out\<close> is \<open>inp\<close> with characters left
  out and characters that are no word characters exchanged for other such characters.
\<close>

definition isJoin :: "char \<Rightarrow> char \<Rightarrow> bool" where
  "isJoin a b \<longleftrightarrow>
     isLowerAZ a \<and> isUpperAZ b \<or> isWord a \<and> isDigit b \<or> isDigit a \<and> isWord b"

fun joins :: "string \<Rightarrow> nat" where
  "joins (a # b # cs) = (if isJoin a b then 1 else 0) + joins (b # cs)"
| "joins cs = 0"

definition alike :: "char \<Rightarrow> char \<Rightarrow> bool" where
  "alike a b \<longleftrightarrow> a = b \<or> \<not> isWord a \<and> \<not> isWord b"

definition shrinks :: "string \<Rightarrow> string \<Rightarrow> bool" where
  "shrinks out inp \<longleftrightarrow> list_emb alike out inp"

section \<open>Facts about strings\<close>

lemma startsWith_iff: "startsWith s p \<longleftrightarrow> (\<exists>q. s = p @ q)"
  unfolding startsWith_def
  by (metis append_eq_conv_conj append_take_drop_id)

lemma str_includes_iff: "str_includes s t \<longleftrightarrow> (\<exists>p q. s = p @ t @ q)"
proof (induction s)
  case Nil
  then show ?case by auto
next
  case (Cons c cs)
  show ?case
  proof
    assume "str_includes (c # cs) t"
    then consider "startsWith (c # cs) t" | "str_includes cs t" by auto
    then show "\<exists>p q. c # cs = p @ t @ q"
    proof cases
      case 1
      then obtain q where "c # cs = t @ q" by (auto simp: startsWith_iff)
      then have "c # cs = [] @ t @ q" by simp
      then show ?thesis by blast
    next
      case 2
      then obtain p q where "cs = p @ t @ q" using Cons.IH by auto
      then have "c # cs = (c # p) @ t @ q" by simp
      then show ?thesis by blast
    qed
  next
    assume "\<exists>p q. c # cs = p @ t @ q"
    then obtain p q where pq: "c # cs = p @ t @ q" by auto
    show "str_includes (c # cs) t"
    proof (cases p)
      case Nil
      with pq have "startsWith (c # cs) t" by (auto simp: startsWith_iff)
      then show ?thesis by simp
    next
      case (Cons a p')
      with pq have "cs = p' @ t @ q" by simp
      then have "str_includes cs t" using Cons.IH by auto
      then show ?thesis by simp
    qed
  qed
qed

lemma str_includes_toLowerCase:
  "str_includes s t \<Longrightarrow> str_includes (toLowerCase s) (toLowerCase t)"
  unfolding str_includes_iff toLowerCase_def by (metis map_append)

lemma str_includes_front: "str_includes s (a @ b) \<Longrightarrow> str_includes s a"
  unfolding str_includes_iff by (metis append.assoc)

lemma str_includes_append_left: "str_includes s t \<Longrightarrow> str_includes (pre @ s) t"
  unfolding str_includes_iff by (metis append.assoc)

lemma str_includes_set: "str_includes s t \<Longrightarrow> set t \<subseteq> set s"
  unfolding str_includes_iff by auto

text \<open>Equations that read \<open>startsWith\<close> character by character.\<close>

lemma startsWith_Nil: "startsWith s [] = True"
  by (simp add: startsWith_def)

lemma startsWith_Nil_Cons: "startsWith [] (d # p) = False"
  by (simp add: startsWith_def)

lemma startsWith_Cons_Cons: "startsWith (c # s) (d # p) = (c = d \<and> startsWith s p)"
  by (auto simp: startsWith_def)

lemmas startsWith_eval = startsWith_Nil startsWith_Nil_Cons startsWith_Cons_Cons

lemmas lower_eval = toLowerCase_def toLowerChar_def hasLowerForm_def isUpperAZ_def code_def

section \<open>Facts about PDF validation\<close>

lemma asciiChar_eq_iff:
  "\<not> bit a 7 \<Longrightarrow> \<not> bit b 7 \<Longrightarrow> asciiChar a = asciiChar b \<longleftrightarrow> a = b"
proof
  assume hi: "\<not> bit a 7" "\<not> bit b 7" and eq: "asciiChar a = asciiChar b"
  show "a = b"
  proof (rule bit_eqI)
    fix n
    assume "possible_bit TYPE(8 word) n"
    then have "n < 8" by simp
    then consider "n = 0" | "n = 1" | "n = 2" | "n = 3" | "n = 4" | "n = 5" | "n = 6" | "n = 7"
      by linarith
    then show "bit a n = bit b n"
      using hi eq by cases (simp_all add: asciiChar_def)
  qed
qed simp

lemma magic_decoded: "map asciiChar PDF_MAGIC = ''%PDF-''"
  by (simp add: PDF_MAGIC_def asciiChar_def)

lemma magic_7bit: "list_all (\<lambda>b. \<not> bit b 7) PDF_MAGIC"
  by (simp add: PDF_MAGIC_def)

lemma header_test:
  "startsWith (toString_ascii buffer 0 8) ''%PDF-'' \<longleftrightarrow> map asciiChar (take 5 buffer) = ''%PDF-''"
proof -
  have "length ''%PDF-'' = 5"
    by simp
  then have "take (length ''%PDF-'') (take 8 buffer) = take 5 buffer"
    by (simp only: take_take) simp
  then show ?thesis
    by (simp only: startsWith_def toString_ascii_def take_map drop_0 diff_zero flip: take_map)
       (simp add: take_map)
qed

lemma map_asciiChar_eq_iff:
  "list_all (\<lambda>b. \<not> bit b 7) xs \<Longrightarrow> list_all (\<lambda>b. \<not> bit b 7) ys \<Longrightarrow>
   map asciiChar xs = map asciiChar ys \<longleftrightarrow> xs = ys"
proof (induction xs arbitrary: ys)
  case Nil
  then show ?case by auto
next
  case (Cons x xs)
  then show ?case by (cases ys) (auto simp: asciiChar_eq_iff)
qed

lemma header_test_7bit:
  "leadingBytes7bit buffer \<Longrightarrow>
   startsWith (toString_ascii buffer 0 8) ''%PDF-'' \<longleftrightarrow> beginsWithMagic buffer"
  unfolding header_test leadingBytes7bit_def beginsWithMagic_def
  using map_asciiChar_eq_iff [OF _ magic_7bit, of "take 5 buffer"]
  by (simp add: magic_decoded)

lemma header_test_magic:
  "beginsWithMagic buffer \<Longrightarrow> startsWith (toString_ascii buffer 0 8) ''%PDF-''"
  unfolding header_test beginsWithMagic_def by (simp add: magic_decoded)

lemma size_test:
  "(of_nat n / (1024 * 1024) > (10::rat)) \<longleftrightarrow> n > 10 * 1024 * 1024"
proof -
  have "(of_nat n / (1024 * 1024) > (10::rat)) \<longleftrightarrow> (of_nat n > (10::rat) * (1024 * 1024))"
    by (simp add: pos_less_divide_eq)
  also have "\<dots> \<longleftrightarrow> (of_nat n > (of_nat (10 * 1024 * 1024) :: rat))" by simp
  also have "\<dots> \<longleftrightarrow> n > 10 * 1024 * 1024" by (simp only: of_nat_less_iff)
  finally show ?thesis .
qed


subsection \<open>C9: the verdict of PDF validation\<close>

text \<open>
  Claim C9, as amended. With the default ceiling of 10 MB, \<open>validatePDFFile\<close>
  \<^item> rejects the empty buffer with "No file content received";
  \<^item> rejects every buffer longer than 10 MB with the too-large error, whatever its content;
  \<^item> accepts every non-empty buffer within the ceiling that begins with the five bytes
    of \<^verbatim>\<open>%PDF-\<close>;
  \<^item> rejects with the format error every non-empty buffer within the ceiling whose first
    five bytes are 7-bit and do not spell \<^verbatim>\<open>%PDF-\<close>;
  \<^item> so, on buffers whose first five bytes are 7-bit, accepts exactly the non-empty
    buffers within the ceiling that begin with \<^verbatim>\<open>%PDF-\<close>.
  The checks run in this order: a buffer that is empty or too large never reaches the
  signature check.
\<close>

theorem validatePDFFile_default_ceiling:
  "(buffer = [] \<longrightarrow>
      validatePDFFile buffer defaultMaxSizeMB = \<lparr>valid = False, error = Some No_file_content_received\<rparr>)
   \<and> (length buffer > 10 * 1024 * 1024 \<longrightarrow>
      validatePDFFile buffer defaultMaxSizeMB =
        \<lparr>valid = False,
         error = Some (File_size_exceeds_maximum (of_nat (length buffer) / (1024 * 1024)) 10)\<rparr>)
   \<and> (buffer \<noteq> [] \<and> length buffer \<le> 10 * 1024 * 1024 \<and> beginsWithMagic buffer \<longrightarrow>
      validatePDFFile buffer defaultMaxSizeMB = \<lparr>valid = True, error = None\<rparr>)
   \<and> (buffer \<noteq> [] \<and> length buffer \<le> 10 * 1024 * 1024 \<and> leadingBytes7bit buffer
        \<and> \<not> beginsWithMagic buffer \<longrightarrow>
      validatePDFFile buffer defaultMaxSizeMB =
        \<lparr>valid = False, error = Some File_is_not_a_valid_PDF_format\<rparr>)
   \<and> (leadingBytes7bit buffer \<longrightarrow>
      valid (validatePDFFile buffer defaultMaxSizeMB) =
        (buffer \<noteq> [] \<and> length buffer \<le> 10 * 1024 * 1024 \<and> beginsWithMagic buffer))"
proof (intro conjI impI)
  assume "buffer = []"
  then show "validatePDFFile buffer defaultMaxSizeMB = \<lparr>valid = False, error = Some No_file_content_received\<rparr>"
    by (simp add: validatePDFFile_def)
next
  assume big: "length buffer > 10 * 1024 * 1024"
  then have "buffer \<noteq> []" by auto
  with big show "validatePDFFile buffer defaultMaxSizeMB =
        \<lparr>valid = False,
         error = Some (File_size_exceeds_maximum (of_nat (length buffer) / (1024 * 1024)) 10)\<rparr>"
    using size_test [of "length buffer"]
    by (simp add: validatePDFFile_def defaultMaxSizeMB_def Let_def)
next
  assume "buffer \<noteq> [] \<and> length buffer \<le> 10 * 1024 * 1024 \<and> beginsWithMagic buffer"
  then show "validatePDFFile buffer defaultMaxSizeMB = \<lparr>valid = True, error = None\<rparr>"
    using size_test [of "length buffer"] header_test_magic [of buffer]
    by (simp add: validatePDFFile_def defaultMaxSizeMB_def Let_def)
next
  assume "buffer \<noteq> [] \<and> length buffer \<le> 10 * 1024 * 1024 \<and> leadingBytes7bit buffer
        \<and> \<not> beginsWithMagic buffer"
  then show "validatePDFFile buffer defaultMaxSizeMB =
        \<lparr>valid = False, error = Some File_is_not_a_valid_PDF_format\<rparr>"
    using size_test [of "length buffer"] header_test_7bit [of buffer]
    by (simp add: validatePDFFile_def defaultMaxSizeMB_def Let_def)
next
  assume "leadingBytes7bit buffer"
  then show "valid (validatePDFFile buffer defaultMaxSizeMB) =
        (buffer \<noteq> [] \<and> length buffer \<le> 10 * 1024 * 1024 \<and> beginsWithMagic buffer)"
    using size_test [of "length buffer"] header_test_7bit [of buffer]
    by (auto simp add: validatePDFFile_def defaultMaxSizeMB_def Let_def)
qed


text \<open>
  The five parts of C9 at concrete buffers: the empty buffer, a buffer of 10 MB plus one
  byte, a PDF header, a ZIP header, and the bare marker.
\<close>

theorem validatePDFFile_default_ceiling_witness:
  "validatePDFFile [] defaultMaxSizeMB = \<lparr>valid = False, error = Some No_file_content_received\<rparr>
   \<and> validatePDFFile ((0x50 # replicate (10 * 1024 * 1024) 0)) defaultMaxSizeMB =
        \<lparr>valid = False,
         error = Some (File_size_exceeds_maximum (of_nat (Suc (10 * 1024 * 1024)) / (1024 * 1024)) 10)\<rparr>
   \<and> validatePDFFile [0x25, 0x50, 0x44, 0x46, 0x2D, 0x31, 0x2E, 0x34] defaultMaxSizeMB =
        \<lparr>valid = True, error = None\<rparr>
   \<and> validatePDFFile [0x50, 0x4B, 0x03, 0x04] defaultMaxSizeMB =
        \<lparr>valid = False, error = Some File_is_not_a_valid_PDF_format\<rparr>
   \<and> valid (validatePDFFile [0x25, 0x50, 0x44, 0x46, 0x2D] defaultMaxSizeMB)"
  using validatePDFFile_default_ceiling [of "[]"]
    validatePDFFile_default_ceiling [of "(0x50 # replicate (10 * 1024 * 1024) 0)"]
    validatePDFFile_default_ceiling [of "[0x25, 0x50, 0x44, 0x46, 0x2D, 0x31, 0x2E, 0x34]"]
    validatePDFFile_default_ceiling [of "[0x50, 0x4B, 0x03, 0x04]"]
    validatePDFFile_default_ceiling [of "[0x25, 0x50, 0x44, 0x46, 0x2D]"]
  by (simp add: beginsWithMagic_def leadingBytes7bit_def PDF_MAGIC_def)


text \<open>
  Claim C9 as stated fails: it asks for the format error on every buffer that does not
  begin with \<^verbatim>\<open>%PDF-\<close>. The empty buffer and a buffer of 10 MB plus one byte do not
  begin with the marker, and neither is rejected with the format error (the first gets
  "No file content received", the second the too-large error).
\<close>

theorem validatePDFFile_format_error_counterexample:
  "\<not> beginsWithMagic [] \<and>
   validatePDFFile [] defaultMaxSizeMB \<noteq> \<lparr>valid = False, error = Some File_is_not_a_valid_PDF_format\<rparr>
   \<and> \<not> beginsWithMagic ((0x50 # replicate (10 * 1024 * 1024) 0)) \<and>
   validatePDFFile ((0x50 # replicate (10 * 1024 * 1024) 0)) defaultMaxSizeMB
     \<noteq> \<lparr>valid = False, error = Some File_is_not_a_valid_PDF_format\<rparr>"
  by (simp add: beginsWithMagic_def PDF_MAGIC_def validatePDFFile_def defaultMaxSizeMB_def Let_def)

section \<open>Facts about the quick score\<close>

lemma isDigit_no_lower_form: "isDigit c \<Longrightarrow> toLowerChar c = c"
  by (simp add: toLowerChar_def hasLowerForm_def isDigit_def isUpperAZ_def)

lemma dashedPhone_cases:
  assumes "dashedPhone p"
  obtains a b c d e f g h i j where
    "p = [a, b, c, CHR ''-'', d, e, f, CHR ''-'', g, h, i, j]"
    "isDigit a" "isDigit b" "isDigit c" "isDigit d" "isDigit e" "isDigit f"
    "isDigit g" "isDigit h" "isDigit i" "isDigit j"
  using assms by (auto simp: dashedPhone_def split: list.splits)

lemma dashedPhone_toLowerCase: "dashedPhone p \<Longrightarrow> toLowerCase p = p"
  by (erule dashedPhone_cases)
     (simp add: toLowerCase_def isDigit_no_lower_form,
      simp add: toLowerChar_def hasLowerForm_def isUpperAZ_def code_def)

lemma dashedPhone_phoneAt: "dashedPhone p \<Longrightarrow> phoneAt (p @ rest)"
  by (erule dashedPhone_cases)
     (simp add: phoneAt_def optionalSep_def isPhoneSep_def numeral_3_eq_3 numeral_eq_Suc)

lemma phoneAt_phoneTest: "phoneAt s \<Longrightarrow> phoneTest s"
  by (cases s) auto

lemma phoneTest_append: "phoneTest s \<Longrightarrow> phoneTest (pre @ s)"
  by (induction pre) auto

lemma dashedPhone_phoneTest:
  assumes "dashedPhone p" and "str_includes s p"
  shows "phoneTest s"
proof -
  from assms(2) obtain pre post where "s = pre @ p @ post"
    by (auto simp: str_includes_iff)
  then show ?thesis
    using dashedPhone_phoneAt [OF assms(1), of post]
    by (simp add: phoneAt_phoneTest phoneTest_append)
qed

lemma str_includes_tail: "\<not> str_includes (c # cs) t \<Longrightarrow> \<not> str_includes cs t"
  by simp

lemma no_term_no_match:
  "(\<forall>t \<in> set technicalTerms. \<not> str_includes s t) \<Longrightarrow> countTermMatches 0 prevIsWord s = 0"
proof (induction s arbitrary: prevIsWord)
  case Nil
  then show ?case by simp
next
  case (Cons c cs)
  have "find (termMatches (c # cs)) technicalTerms = None"
    using Cons.prems by (auto simp: find_None_iff termMatches_def)
  then have "firstTermAt prevIsWord (c # cs) = None"
    by (simp add: firstTermAt_def)
  moreover have "countTermMatches 0 (isWord c) cs = 0"
    using Cons.prems by (intro Cons.IH) auto
  ultimately show ?case by simp
qed

lemma if_add_int: "(if c then s + k else s) = s + (if c then k else (0::int))"
  by simp

lemma generateQuickScore_sum:
  "generateQuickScore t =
     min 100
       ((if length (splitSpaces t) > 150 then 10 else 0)
        + (if length (splitSpaces t) > 300 then 10 else 0)
        + (if length (splitSpaces t) > 500 then 10 else 0)
        + (if str_includes (toLowerCase t) ''@'' \<or> str_includes (toLowerCase t) ''email''
           then 10 else 0)
        + (if phoneTest (toLowerCase t) then 10 else 0)
        + min 15 (int (length (filter (str_includes (toLowerCase t)) experienceKeywords)) * 2)
        + (if str_includes (toLowerCase t) ''education'' \<or> str_includes (toLowerCase t) ''degree''
              \<or> str_includes (toLowerCase t) ''university''
           then 5 else 0)
        + (if str_includes (toLowerCase t) ''bachelor'' \<or> str_includes (toLowerCase t) ''master''
              \<or> str_includes (toLowerCase t) ''phd''
           then 5 else 0)
        + (if str_includes (toLowerCase t) ''skills'' \<or> str_includes (toLowerCase t) ''technical''
           then 5 else 0)
        + min 5 (int (countTermMatches 0 False (toLowerCase t))))"
  unfolding generateQuickScore_def if_add_int
  by (simp only: Let_def add_0)

lemma experienceMatches_le: "length (filter P experienceKeywords) \<le> 7"
proof -
  have "length (filter P experienceKeywords) \<le> length experienceKeywords"
    by (rule length_filter_le)
  also have "\<dots> = 7" by (simp add: experienceKeywords_def)
  finally show ?thesis .
qed

lemma flag_points: "0 \<le> n \<Longrightarrow> 0 \<le> (if b then n else (0::int)) \<and> (if b then n else 0) \<le> n"
  by simp

lemma score_sum_range:
  fixes e k :: nat
  assumes "e \<le> 7"
  shows "0 \<le> min 100
           ((if b1 then 10 else 0) + (if b2 then 10 else 0) + (if b3 then 10 else 0)
            + (if b4 then 10 else 0) + (if b5 then 10 else 0) + min 15 (int e * 2)
            + (if b6 then 5 else 0) + (if b7 then 5 else 0) + (if b8 then 5 else 0)
            + min 5 (int k))
       \<and> min 100
           ((if b1 then 10 else 0) + (if b2 then 10 else 0) + (if b3 then 10 else 0)
            + (if b4 then 10 else 0) + (if b5 then 10 else 0) + min 15 (int e * 2)
            + (if b6 then 5 else 0) + (if b7 then 5 else 0) + (if b8 then 5 else 0)
            + min 5 (int k)) \<le> (100::int)"
  using flag_points [of 10 b1] flag_points [of 10 b2] flag_points [of 10 b3]
    flag_points [of 10 b4] flag_points [of 10 b5] flag_points [of 5 b6]
    flag_points [of 5 b7] flag_points [of 5 b8] assms
  by linarith

lemma generateQuickScore_range: "0 \<le> generateQuickScore t \<and> generateQuickScore t \<le> 100"
  unfolding generateQuickScore_sum
  by (rule score_sum_range) (rule experienceMatches_le)

lemma generateQuickScore_no_signal:
  assumes "length (splitSpaces t) \<le> 150"
    and "\<not> str_includes (toLowerCase t) ''@''"
    and "\<not> str_includes (toLowerCase t) ''email''"
    and "\<not> phoneTest (toLowerCase t)"
    and kw: "\<forall>k \<in> set rubricKeywords. \<not> str_includes (toLowerCase t) k"
  shows "generateQuickScore t = 0"
proof -
  have ex: "filter (str_includes (toLowerCase t)) experienceKeywords = []"
    using kw by (auto simp: rubricKeywords_def filter_empty_conv)
  have tm: "countTermMatches 0 False (toLowerCase t) = 0"
    using kw by (intro no_term_no_match) (simp add: rubricKeywords_def)
  have no: "\<not> str_includes (toLowerCase t) k"
    if "k \<in> set [''education'', ''degree'', ''university'', ''bachelor'', ''master'', ''phd'',
        ''skills'', ''technical'']" for k
    using kw that unfolding rubricKeywords_def by (simp only: set_append) blast
  have w: "\<not> length (splitSpaces t) > 150" "\<not> length (splitSpaces t) > 300"
    "\<not> length (splitSpaces t) > 500"
    using assms(1) by simp_all
  have e: "\<not> str_includes (toLowerCase t) ''education''" "\<not> str_includes (toLowerCase t) ''degree''"
    "\<not> str_includes (toLowerCase t) ''university''" "\<not> str_includes (toLowerCase t) ''bachelor''"
    "\<not> str_includes (toLowerCase t) ''master''" "\<not> str_includes (toLowerCase t) ''phd''"
    "\<not> str_includes (toLowerCase t) ''skills''" "\<not> str_includes (toLowerCase t) ''technical''"
    by (rule no, simp)+
  show ?thesis
    unfolding generateQuickScore_sum
    by (simp add: w e assms(2-4) ex tm)
qed

lemma generateQuickScore_full_resume:
  assumes wc: "length (splitSpaces t) > 500"
    and at: "str_includes t ''@''"
    and ph: "dashedPhone p" "str_includes t p"
    and ex: "4 \<le> length (filter (str_includes (toLowerCase t)) experienceKeywords)"
    and ba: "str_includes t ''Bachelor of Science,''"
    and sk: "str_includes t ''Skills: Python, SQL''"
  shows "68 \<le> generateQuickScore t"
proof -
  have 1: "str_includes (toLowerCase t) ''@''"
    using str_includes_toLowerCase [OF at]
    by (simp add: toLowerCase_def toLowerChar_def hasLowerForm_def isUpperAZ_def code_def)
  have 2: "phoneTest (toLowerCase t)"
    using str_includes_toLowerCase [OF ph(2)] dashedPhone_toLowerCase [OF ph(1)] ph(1)
    by (simp add: dashedPhone_phoneTest)
  have "str_includes (toLowerCase t) (''bachelor'' @ '' of science,'')"
    using str_includes_toLowerCase [OF ba]
    by (simp add: toLowerCase_def toLowerChar_def hasLowerForm_def isUpperAZ_def code_def)
  then have 3: "str_includes (toLowerCase t) ''bachelor''"
    by (rule str_includes_front)
  have "str_includes (toLowerCase t) (''skills'' @ '': python, sql'')"
    using str_includes_toLowerCase [OF sk]
    by (simp add: toLowerCase_def toLowerChar_def hasLowerForm_def isUpperAZ_def code_def)
  then have 4: "str_includes (toLowerCase t) ''skills''"
    by (rule str_includes_front)
  have w: "length (splitSpaces t) > 150" "length (splitSpaces t) > 300"
    using wc by simp_all
  have 5: "8 \<le> min 15 (int (length (filter (str_includes (toLowerCase t)) experienceKeywords)) * 2)"
    using ex by simp
  have 6: "0 \<le> min 5 (int (countTermMatches 0 False (toLowerCase t)))"
    by simp
  show ?thesis
    unfolding generateQuickScore_sum
    apply (simp only: w wc 1 2 3 4 if_True simp_thms)
    using 5 6 flag_points [of 5 "str_includes (toLowerCase t) ''education'' \<or> str_includes (toLowerCase t) ''degree''
              \<or> str_includes (toLowerCase t) ''university''"]
    by linarith
qed

lemma splitSpacesFrom_nonempty: "splitSpacesFrom b s \<noteq> []"
  by (induction s arbitrary: b) (auto split: list.splits)

lemma length_splitSpacesFrom_word:
  "\<not> isSpace c \<Longrightarrow> length (splitSpacesFrom b (c # s)) = length (splitSpacesFrom False s)"
  using splitSpacesFrom_nonempty [of False s] by (auto split: list.splits)

lemma length_splitSpacesFrom_letters:
  "list_all (\<lambda>c. \<not> isSpace c) w \<Longrightarrow>
   length (splitSpacesFrom False (w @ s)) = length (splitSpacesFrom False s)"
  by (induction w) (simp_all add: length_splitSpacesFrom_word del: splitSpacesFrom.simps)

lemma length_splitSpacesFrom_filler:
  assumes "list_all (\<lambda>c. \<not> isSpace c) (a # w)" and "isSpace sp" and "\<not> isSpace c"
  shows "length (splitSpacesFrom b (concat (replicate n (a # w @ [sp])) @ c # rest))
     = n + length (splitSpacesFrom False (c # rest))"
proof (induction n arbitrary: b)
  case 0
  show ?case using assms(3) by (simp add: length_splitSpacesFrom_word del: splitSpacesFrom.simps)
next
  case (Suc n)
  let ?Y = "concat (replicate n (a # w @ [sp])) @ c # rest"
  have "length (splitSpacesFrom b (a # w @ sp # ?Y)) = length (splitSpacesFrom False (w @ sp # ?Y))"
    using assms(1) by (simp add: length_splitSpacesFrom_word del: splitSpacesFrom.simps)
  also have "\<dots> = length (splitSpacesFrom False (sp # ?Y))"
    using assms(1) by (simp add: length_splitSpacesFrom_letters del: splitSpacesFrom.simps)
  also have "\<dots> = 1 + length (splitSpacesFrom True ?Y)"
    using assms(2) by simp
  also have "\<dots> = 1 + (n + length (splitSpacesFrom False (c # rest)))"
    by (simp only: Suc.IH)
  finally show ?case by simp
qed

lemma tail18: "length (splitSpaces resumeTail) = 18"
  by (simp add: resumeTail_def splitSpaces_def isSpace_def code_def)

lemma lower_tail: "toLowerCase resumeTail = ''jane roe jane@example.com 555-123-4567 experience: worked on data, managed and led teams. bachelor of science, skills: python, sql''"
  by (simp add: resumeTail_def toLowerCase_def toLowerChar_def hasLowerForm_def isUpperAZ_def code_def)

lemma length_splitSpaces_filler:
  assumes "list_all (\<lambda>c. \<not> isSpace c) (a # w)" and "isSpace sp"
    and "s \<noteq> []" and "\<not> isSpace (hd s)"
  shows "length (splitSpaces (concat (replicate n (a # w @ [sp])) @ s))
     = n + length (splitSpaces s)"
proof -
  obtain c rest where s: "s = c # rest" using assms(3) by (cases s) auto
  with assms(4) have "\<not> isSpace c" by simp
  from length_splitSpacesFrom_filler [OF assms(1,2) this]
  show ?thesis unfolding splitSpaces_def s .
qed

lemma tail_head: "resumeTail \<noteq> [] \<and> \<not> isSpace (hd resumeTail)"
  by (simp add: resumeTail_def isSpace_def code_def)

lemma six_hundred: "length (splitSpaces sixHundredWords) = 600"
proof -
  have "length (splitSpaces (concat (replicate 582 (CHR ''l'' # ''orem'' @ [CHR '' ''])) @ resumeTail))
          = 582 + length (splitSpaces resumeTail)"
    using tail_head by (intro length_splitSpaces_filler) (simp_all add: isSpace_def code_def)
  then show ?thesis
    by (simp add: sixHundredWords_def tail18)
qed

lemma forty: "length (splitSpaces fortyWords) = 40"
proof -
  have "length (splitSpaces (concat (replicate 39 (CHR ''l'' # ''orem'' @ [CHR '' ''])) @ ''ipsum''))
          = 39 + length (splitSpaces ''ipsum'')"
    by (intro length_splitSpaces_filler) (simp_all add: isSpace_def code_def)
  then show ?thesis
    by (simp add: fortyWords_def splitSpaces_def isSpace_def code_def)
qed

lemma inc1: "str_includes resumeTail ''@''"
  by (simp add: resumeTail_def startsWith_def)
lemma inc2: "str_includes resumeTail ''555-123-4567''"
  by (simp add: resumeTail_def startsWith_def)
lemma inc3: "str_includes resumeTail ''Bachelor of Science,''"
  by (simp add: resumeTail_def startsWith_def)
lemma inc4: "str_includes resumeTail ''Skills: Python, SQL''"
  by (simp add: resumeTail_def startsWith_def)
lemma inc5: "str_includes (toLowerCase resumeTail) ''experience''" "str_includes (toLowerCase resumeTail) ''worked''"
 "str_includes (toLowerCase resumeTail) ''managed''" "str_includes (toLowerCase resumeTail) ''led''"
  unfolding lower_tail
  by (simp_all add: startsWith_def)

lemma phoneAt_digit: "phoneAt (c # cs) \<Longrightarrow> isDigit c"
  by (simp add: phoneAt_def numeral_3_eq_3 split: if_splits)

lemma phoneTest_digit: "phoneTest s \<Longrightarrow> \<exists>c \<in> set s. isDigit c"
proof (induction s)
  case Nil
  then show ?case by (simp add: phoneAt_def numeral_3_eq_3)
next
  case (Cons c cs)
  then show ?case using phoneAt_digit [of c cs] by auto
qed

lemma forty_letters: "set (toLowerCase fortyWords) = set ''lorem ipsu''"
  by (simp add: fortyWords_def toLowerCase_def toLowerChar_def hasLowerForm_def isUpperAZ_def
      code_def) auto

lemma forty_no_keyword: "\<forall>k \<in> set (''@'' # ''email'' # rubricKeywords). \<not> str_includes (toLowerCase fortyWords) k"
proof -
  have "\<forall>k \<in> set (''@'' # ''email'' # rubricKeywords). \<not> set k \<subseteq> set (toLowerCase fortyWords)"
    unfolding forty_letters
    by (simp add: rubricKeywords_def experienceKeywords_def technicalTerms_def)
  then show ?thesis using str_includes_set by blast
qed

lemma forty_no_phone: "\<not> phoneTest (toLowerCase fortyWords)"
proof
  assume "phoneTest (toLowerCase fortyWords)"
  then have "\<exists>c \<in> set (toLowerCase fortyWords). isDigit c" by (rule phoneTest_digit)
  then show False unfolding forty_letters by (simp add: isDigit_def code_def)
qed

lemma six_hundred_keywords:
  "4 \<le> length (filter (str_includes (toLowerCase sixHundredWords)) experienceKeywords)"
proof -
  have "str_includes (toLowerCase sixHundredWords) k"
    if "str_includes (toLowerCase resumeTail) k" for k
    using that unfolding sixHundredWords_def toLowerCase_def map_append
    by (rule str_includes_append_left)
  with inc5 have
    "str_includes (toLowerCase sixHundredWords) ''experience''"
    "str_includes (toLowerCase sixHundredWords) ''worked''"
    "str_includes (toLowerCase sixHundredWords) ''managed''"
    "str_includes (toLowerCase sixHundredWords) ''led''"
    by blast+
  then show ?thesis by (simp add: experienceKeywords_def)
qed

subsection \<open>C7: range and boundaries of the quick score\<close>

text \<open>
  Claim C7. \<open>generateQuickScore\<close> returns a value between 0 and 100 for every text.
  A text of at most 150 words (so also one of 40 words) whose lower-case form contains
  neither \<^verbatim>\<open>@\<close> nor \<^verbatim>\<open>email\<close>, no phone-shaped digit grouping and none of the
  rubric's keywords scores less than 20 (it scores 0). A text of more than 500 words
  (so also one of 600 words) that contains \<^verbatim>\<open>@\<close>, a phone number in the format of
  \<^verbatim>\<open>555-123-4567\<close>, at least four of the seven experience keywords (in any case),
  \<^verbatim>\<open>Bachelor of Science,\<close> and \<^verbatim>\<open>Skills: Python, SQL\<close> scores at least 60.
\<close>

theorem generateQuickScore_boundaries:
  "0 \<le> generateQuickScore t \<and> generateQuickScore t \<le> 100
   \<and> (length (splitSpaces t) \<le> 150
        \<and> \<not> str_includes (toLowerCase t) ''@'' \<and> \<not> str_includes (toLowerCase t) ''email''
        \<and> \<not> phoneTest (toLowerCase t)
        \<and> (\<forall>k \<in> set rubricKeywords. \<not> str_includes (toLowerCase t) k)
      \<longrightarrow> generateQuickScore t < 20)
   \<and> (length (splitSpaces t) > 500
        \<and> str_includes t ''@''
        \<and> dashedPhone p \<and> str_includes t p
        \<and> 4 \<le> length (filter (str_includes (toLowerCase t)) experienceKeywords)
        \<and> str_includes t ''Bachelor of Science,''
        \<and> str_includes t ''Skills: Python, SQL''
      \<longrightarrow> 60 \<le> generateQuickScore t)"
proof (intro conjI impI)
  show "0 \<le> generateQuickScore t" and "generateQuickScore t \<le> 100"
    using generateQuickScore_range [of t] by simp_all
next
  assume "length (splitSpaces t) \<le> 150
        \<and> \<not> str_includes (toLowerCase t) ''@'' \<and> \<not> str_includes (toLowerCase t) ''email''
        \<and> \<not> phoneTest (toLowerCase t)
        \<and> (\<forall>k \<in> set rubricKeywords. \<not> str_includes (toLowerCase t) k)"
  then have "generateQuickScore t = 0"
    by (intro generateQuickScore_no_signal) simp_all
  then show "generateQuickScore t < 20" by simp
next
  assume "length (splitSpaces t) > 500
        \<and> str_includes t ''@''
        \<and> dashedPhone p \<and> str_includes t p
        \<and> 4 \<le> length (filter (str_includes (toLowerCase t)) experienceKeywords)
        \<and> str_includes t ''Bachelor of Science,''
        \<and> str_includes t ''Skills: Python, SQL''"
  then have "68 \<le> generateQuickScore t"
    by (intro generateQuickScore_full_resume [where p = p]) simp_all
  then show "60 \<le> generateQuickScore t" by simp
qed

text \<open>
  C7 at the two sample texts: the one of forty words scores less than 20, the one of
  six hundred words at least 60 and at most 100.
\<close>

theorem generateQuickScore_boundaries_witness:
  "length (splitSpaces fortyWords) = 40 \<and> generateQuickScore fortyWords < 20
   \<and> length (splitSpaces sixHundredWords) = 600 \<and> 60 \<le> generateQuickScore sixHundredWords
   \<and> generateQuickScore sixHundredWords \<le> 100"
proof -
  have a: "str_includes sixHundredWords ''@''" "str_includes sixHundredWords ''555-123-4567''"
    "str_includes sixHundredWords ''Bachelor of Science,''"
    "str_includes sixHundredWords ''Skills: Python, SQL''"
    unfolding sixHundredWords_def
    by (intro str_includes_append_left inc1 inc2 inc3 inc4)+
  have b: "dashedPhone ''555-123-4567''"
    by (simp add: dashedPhone_def isDigit_def code_def)
  show ?thesis
    using generateQuickScore_boundaries [of fortyWords "''555-123-4567''"]
      generateQuickScore_boundaries [of sixHundredWords "''555-123-4567''"]
      forty six_hundred forty_no_keyword forty_no_phone six_hundred_keywords a b
    by simp
qed

section \<open>Facts about the response normalizer\<close>





lemma validateAndStructureAnalysis_nullish:
  "isNullish raw \<Longrightarrow> validateAndStructureAnalysis E raw = Inl TypeError"
  by (simp add: validateAndStructureAnalysis_def getProp_def)



subsection \<open>C1: the normalizer on a null payload\<close>

text \<open>
  Claim C1 says that \<open>validateAndStructureAnalysis\<close> returns an analysis for every raw
  payload, \<^verbatim>\<open>null\<close> included. On the payload \<^verbatim>\<open>null\<close> the first member read,
  \<^verbatim>\<open>rawAnalysis.overallScore\<close>, throws a \<^verbatim>\<open>TypeError\<close>: the function does not
  return. (Every payload that is neither \<^verbatim>\<open>null\<close> nor \<^verbatim>\<open>undefined\<close> is
  normalized, see \<open>validateAndStructureAnalysis_returns\<close>.)
\<close>

theorem validateAndStructureAnalysis_null_throws:
  "validateAndStructureAnalysis E JNull = Inl TypeError"
  by (simp add: validateAndStructureAnalysis_def getProp_def isNullish_def)

subsection \<open>C2: the scores of a normalized analysis\<close>




section \<open>Facts about the enricher\<close>

lemma findE_total:
  "(\<forall>x \<in> set xs. p x = Inr (q x)) \<Longrightarrow> findE p xs = Inr (find q xs)"
  by (induction xs) auto

lemma someE_total:
  "(\<forall>x \<in> set xs. p x = Inr (q x)) \<Longrightarrow> someE p xs = Inr (list_ex q xs)"
  by (induction xs) auto

lemma filterE_total:
  "(\<forall>x \<in> set xs. p x = Inr (q x)) \<Longrightarrow> filterE p xs = Inr (filter q xs)"
  by (induction xs) auto

lemma isString_cases: "isString v \<Longrightarrow> v = JStr (stringOf v)"
  by (cases v) (auto simp: isString_def stringOf_def)

lemma entryIncludes_string:
  "isString v \<Longrightarrow> entryIncludes w v = Inr (str_includes (toLowerCase (stringOf v)) w)"
  by (cases v) (auto simp: isString_def stringOf_def entryIncludes_def jsToLowerCase_def)

lemma wellTypedSection_object: "wellTypedSection s \<Longrightarrow> \<not> isNullish s"
  by (cases s) (auto simp: wellTypedSection_def isNullish_def member_def isString_def)

lemma sectionNameIncludes_wellTyped:
  "wellTypedSection s \<Longrightarrow>
   sectionNameIncludes w s = Inr (str_includes (toLowerCase (stringOf (member s ''name''))) w)"
  using wellTypedSection_object [of s]
  by (cases "member s ''name''")
     (auto simp: sectionNameIncludes_def getProp_def jsToLowerCase_def wellTypedSection_def
        isString_def stringOf_def)

lemma someE_entries:
  "list_all isString ms \<Longrightarrow>
   someE (entryIncludes w) ms = Inr (list_ex (\<lambda>m. str_includes (toLowerCase (stringOf m)) w) ms)"
  by (rule someE_total) (simp add: list_all_iff entryIncludes_string)

lemma someE_sections:
  "list_all wellTypedSection ss \<Longrightarrow>
   someE (sectionNameIncludes w) ss
     = Inr (list_ex (\<lambda>s. str_includes (toLowerCase (stringOf (member s ''name''))) w) ss)"
  by (rule someE_total) (simp add: list_all_iff sectionNameIncludes_wellTyped)

lemma findE_sections:
  "list_all wellTypedSection ss \<Longrightarrow>
   findE (sectionNameIncludes w) ss
     = Inr (find (\<lambda>s. str_includes (toLowerCase (stringOf (member s ''name''))) w) ss)"
  by (rule findE_total) (simp add: list_all_iff sectionNameIncludes_wellTyped)

lemma arrayJoin_strings:
  "list_all isString fs \<Longrightarrow> arrayJoin E sep fs = join sep (map stringOf fs)"
proof -
  assume "list_all isString fs"
  then have "map (\<lambda>x. if x = JUndefined \<or> x = JNull then [] else jsToString E x) fs = map stringOf fs"
    by (induction fs) (auto simp: isString_def stringOf_def split: jsvalue.splits)
  then show ?thesis by (simp only: arrayJoin_def)
qed

lemma bit5_not_upper: "\<not> hasLowerForm (Char b0 b1 b2 b3 b4 True b6 b7)"
  by (cases b6; cases b7) (simp_all add: hasLowerForm_def isUpperAZ_def code_def)

lemma toLowerChar_idem: "toLowerChar (toLowerChar c) = toLowerChar c"
  by (simp add: toLowerChar_def bit5_not_upper)

lemma toLowerCase_idem: "toLowerCase (toLowerCase s) = toLowerCase s"
  by (simp add: toLowerCase_def toLowerChar_idem)

lemma catalog_lower_skills:
  "map (\<lambda>r. map toLowerCase (commonSkills r)) PREDEFINED_JOB_ROLES =
   [[''python'', ''r'', ''sql'', ''machine learning'', ''statistics'',
                       ''data visualization'', ''tensorflow'', ''pandas'', ''numpy''],
    [''product strategy'', ''agile/scrum'', ''user research'', ''data analysis'',
                       ''stakeholder management'', ''roadmap planning'', ''a/b testing''],
    [''programming'', ''javascript'', ''python'', ''git'', ''apis'',
                       ''database design'', ''testing'', ''system design'', ''devops''],
    [''user research'', ''wireframing'', ''prototyping'', ''figma'',
                       ''adobe creative suite'', ''information architecture'',
                       ''usability testing''],
    [''digital marketing'', ''content strategy'', ''seo/sem'', ''social media'',
                       ''analytics'', ''campaign management'', ''brand management''],
    [''requirements analysis'', ''process mapping'', ''sql'', ''data analysis'',
                       ''stakeholder communication'', ''project management'', ''documentation''],
    [''lead generation'', ''customer relationship management'', ''negotiation'',
                       ''sales process'', ''crm software'', ''communication'', ''cold calling''],
    [''project planning'', ''risk management'', ''team leadership'',
                       ''agile/scrum'', ''budget management'', ''stakeholder communication'',
                       ''timeline management'']]"
  by (simp add: PREDEFINED_JOB_ROLES_def lower_eval)

lemma skillsSectionText_wellTyped:
  assumes "wellTyped a"
  shows "skillsSectionText E a = Inr (skillsFeedbackText a)"
proof -
  let ?q = "\<lambda>s. str_includes (toLowerCase (stringOf (member s ''name''))) ''skill''"
  have ss: "list_all wellTypedSection (sections a)"
    using assms by (simp add: wellTyped_def)
  show ?thesis
  proof (cases "find ?q (sections a)")
    case None
    then show ?thesis
      by (simp add: skillsSectionText_def skillsFeedbackText_def findE_sections [OF ss])
  next
    case (Some s)
    then have "s \<in> set (sections a)" by (auto simp: find_Some_iff)
    with ss have "wellTypedSection s" by (simp add: list_all_iff)
    then obtain fs where fs: "member s ''feedback'' = JArr fs" "list_all isString fs"
      by (auto simp: wellTypedSection_def split: jsvalue.splits)
    show ?thesis
      using Some fs
      by (simp add: skillsSectionText_def skillsFeedbackText_def findE_sections [OF ss]
          arrayJoin_strings arrayOrEmpty_def)
  qed
qed

lemma filterE_missing:
  assumes "list_all isString ms"
  shows "filterE (isMissingSkill text ms) skills =
     Inr (filter (\<lambda>skill. \<not> str_includes text (toLowerCase skill)
            \<and> \<not> list_ex (\<lambda>m. str_includes (toLowerCase (stringOf m)) (toLowerCase skill)) ms)
          skills)"
  by (rule filterE_total) (simp add: isMissingSkill_def someE_entries [OF assms])

lemma find_distinct_map:
  "distinct (map f xs) \<Longrightarrow> x \<in> set xs \<Longrightarrow> find (\<lambda>c. f c = f x) xs = Some x"
  by (induction xs) (auto simp: image_iff)

lemma catalog_distinct_skills:
  "list_all (\<lambda>r. distinct (map toLowerCase (commonSkills r)) \<and> [] \<notin> set (commonSkills r))
     PREDEFINED_JOB_ROLES"
proof -
  have "list_all distinct (map (\<lambda>r. map toLowerCase (commonSkills r)) PREDEFINED_JOB_ROLES)"
    unfolding catalog_lower_skills by simp
  moreover have "list_all (\<lambda>r. [] \<notin> set (commonSkills r)) PREDEFINED_JOB_ROLES"
    by (simp add: PREDEFINED_JOB_ROLES_def)
  ultimately show ?thesis by (simp add: list_all_iff)
qed

lemma catalogSpelling_catalog:
  assumes "r \<in> set PREDEFINED_JOB_ROLES" and "cs \<in> set (commonSkills r)"
  shows "catalogSpelling r (toLowerCase cs) = cs"
proof -
  from assms(1) have d: "distinct (map toLowerCase (commonSkills r))" "[] \<notin> set (commonSkills r)"
    using catalog_distinct_skills by (auto simp: list_all_iff)
  from assms(2) d(2) have "cs \<noteq> []" by auto
  then show ?thesis
    using find_distinct_map [OF d(1) assms(2)] by (simp add: catalogSpelling_def)
qed

lemma map_filter_map_inverse:
  "(\<forall>x \<in> set xs. g (f x) = x) \<Longrightarrow> map g (filter q (map f xs)) = filter (\<lambda>x. q (f x)) xs"
  by (induction xs) auto

lemma new_missing_skills:
  assumes r: "r \<in> set PREDEFINED_JOB_ROLES" and wt: "wellTyped a"
  shows "filter (\<lambda>skill. JStr skill \<notin> set (missingSkills (keyFindings a)))
           (map (catalogSpelling r)
              (filter (\<lambda>skill. \<not> str_includes (skillsFeedbackText a) (toLowerCase skill)
                  \<and> \<not> list_ex (\<lambda>m. str_includes (toLowerCase (stringOf m)) (toLowerCase skill))
                         (missingSkills (keyFindings a)))
                 (map toLowerCase (commonSkills r))))
         = filter (skillIsNew a) (commonSkills r)"
proof -
  have 1: "map (catalogSpelling r)
              (filter (\<lambda>skill. \<not> str_includes (skillsFeedbackText a) (toLowerCase skill)
                  \<and> \<not> list_ex (\<lambda>m. str_includes (toLowerCase (stringOf m)) (toLowerCase skill))
                         (missingSkills (keyFindings a)))
                 (map toLowerCase (commonSkills r)))
           = filter (skillIsNew a) (commonSkills r)"
  proof -
    have eq: "skillIsNew a = (\<lambda>x. \<not> str_includes (skillsFeedbackText a) (toLowerCase x)
        \<and> \<not> list_ex (\<lambda>m. str_includes (toLowerCase (stringOf m)) (toLowerCase x))
               (missingSkills (keyFindings a)))"
      by (simp add: fun_eq_iff skillIsNew_def)
    show ?thesis
      unfolding eq using catalogSpelling_catalog [OF r]
      by (subst map_filter_map_inverse) (simp_all add: toLowerCase_idem)
  qed
  have 2: "JStr skill \<notin> set (missingSkills (keyFindings a))" if "skillIsNew a skill" for skill
  proof
    assume "JStr skill \<in> set (missingSkills (keyFindings a))"
    moreover have "str_includes (toLowerCase skill) (toLowerCase skill)"
      unfolding str_includes_iff by (metis append_Nil append_Nil2)
    ultimately have "list_ex (\<lambda>m. str_includes (toLowerCase (stringOf m)) (toLowerCase skill))
        (missingSkills (keyFindings a))"
      unfolding list_ex_iff by (intro bexI [of _ "JStr skill"]) (simp_all add: stringOf_def)
    with that show False by (simp add: skillIsNew_def)
  qed
  show ?thesis unfolding 1 using 2 by (auto intro: filter_cong simp: filter_id_conv)
qed

lemma set_uniqueInOrder: "set (uniqueInOrder xs) = set xs"
  by (induction xs rule: uniqueInOrder.induct) auto

lemma distinct_uniqueInOrder: "distinct (uniqueInOrder xs)"
  by (induction xs rule: uniqueInOrder.induct) (auto simp: set_uniqueInOrder)

lemma first_three_unique:
  assumes "rs \<noteq> []"
  shows "1 \<le> length (take 3 (uniqueInOrder rs)) \<and> length (take 3 (uniqueInOrder rs)) \<le> 3
         \<and> distinct (take 3 (uniqueInOrder rs))"
proof -
  from assms have "uniqueInOrder rs \<noteq> []" by (cases rs) auto
  then have "1 \<le> length (uniqueInOrder rs)" by (cases "uniqueInOrder rs") auto
  then show ?thesis by (simp add: distinct_uniqueInOrder)
qed

lemma catalog_categories:
  "map (\<lambda>r. toLowerCase (category r)) PREDEFINED_JOB_ROLES =
     [''technology'', ''management'', ''technology'', ''design'', ''marketing'', ''analysis'',
      ''sales'', ''management'']"
  by (simp add: PREDEFINED_JOB_ROLES_def lower_eval)

lemma catalog_category:
  assumes "r \<in> set PREDEFINED_JOB_ROLES"
  obtains "toLowerCase (category r) = ''technology''"
    | "toLowerCase (category r) = ''management''"
    | "toLowerCase (category r) = ''design''"
    | "toLowerCase (category r) = ''marketing''"
    | "toLowerCase (category r) = ''sales''"
    | "toLowerCase (category r) = ''analysis''"
proof -
  from assms have "toLowerCase (category r) \<in> set (map (\<lambda>r. toLowerCase (category r)) PREDEFINED_JOB_ROLES)"
    by simp
  then have "toLowerCase (category r)
          \<in> {''technology'', ''management'', ''design'', ''marketing'', ''sales'', ''analysis''}"
    unfolding catalog_categories by auto
  then show ?thesis using that by blast
qed

lemma categoryRecommendations_catalog:
  assumes r: "r \<in> set PREDEFINED_JOB_ROLES" and wt: "wellTyped a"
  shows "\<exists>rs. categoryRecommendations r a = Inr rs \<and> rs \<noteq> []"
proof -
  have ms: "list_all isString (missingSkills (keyFindings a))"
    and ss: "list_all wellTypedSection (sections a)"
    using wt by (simp_all add: wellTyped_def)
  from r show ?thesis
  proof (cases rule: catalog_category)
    case 1
    then show ?thesis by (simp add: categoryRecommendations_def)
  next
    case 2
    then show ?thesis by (simp add: categoryRecommendations_def someE_entries [OF ms])
  next
    case 3
    then show ?thesis by (simp add: categoryRecommendations_def)
  next
    case 4
    then show ?thesis by (simp add: categoryRecommendations_def someE_sections [OF ss])
  next
    case 5
    then show ?thesis by (simp add: categoryRecommendations_def)
  next
    case 6
    then show ?thesis by (simp add: categoryRecommendations_def someE_entries [OF ms])
  qed
qed

lemma generateRoleSpecificRecommendations_catalog:
  assumes r: "r \<in> set PREDEFINED_JOB_ROLES" and wt: "wellTyped a"
  shows "\<exists>new. generateRoleSpecificRecommendations r a = Inr new
           \<and> 1 \<le> length new \<and> length new \<le> 3 \<and> distinct new"
proof -
  from categoryRecommendations_catalog [OF assms] obtain rs
    where "categoryRecommendations r a = Inr rs" "rs \<noteq> []" by blast
  then show ?thesis
    using first_three_unique [of rs] by (simp add: generateRoleSpecificRecommendations_def)
qed

lemma js_less_irrefl: "\<not> js_less n n"
  by (cases n) auto

lemma extendedBy_append: "extendedBy xs (xs @ ys)"
  by (simp add: extendedBy_def)

lemma extendedBy_refl: "extendedBy xs xs"
  by (simp add: extendedBy_def)

lemma withInsights_keeps: "enrichmentKeeps a (withInsights a ms rs)"
  by (simp add: enrichmentKeeps_def withInsights_def js_less_irrefl extendedBy_append
      extendedBy_refl)

lemma withInsights_nothing: "withInsights a [] [] = a"
  by (simp add: withInsights_def)

lemma enhance_no_match:
  "find (roleMatches jobRole) PREDEFINED_JOB_ROLES = None \<Longrightarrow>
   enhanceAnalysisWithJobInsights E a jobRole = Inr a"
  by (simp add: enhanceAnalysisWithJobInsights_def)

lemma enhance_shape:
  assumes "enhanceAnalysisWithJobInsights E a jobRole = Inr a'"
  shows "\<exists>ms rs. a' = withInsights a ms rs"
proof (cases "find (roleMatches jobRole) PREDEFINED_JOB_ROLES")
  case None
  with assms have "a' = a" by (simp add: enhance_no_match)
  then show ?thesis using withInsights_nothing [of a] by metis
next
  case (Some r)
  from assms obtain resumeText M new where
    "skillsSectionText E a = Inr resumeText"
    "filterE (isMissingSkill resumeText (missingSkills (keyFindings a))) (map toLowerCase (commonSkills r))
       = Inr M"
    and a': "a' = (let newMissingSkills =
                          filter (\<lambda>skill. JStr skill \<notin> set (missingSkills (keyFindings a)))
                            (map (catalogSpelling r) M);
                        analysis1 =
                          (if length M > 0
                           then a\<lparr>keyFindings := (keyFindings a)
                                     \<lparr>missingSkills := missingSkills (keyFindings a)
                                                         @ map JStr newMissingSkills\<rparr>\<rparr>
                           else a)
                    in analysis1\<lparr>jobAlignment := (jobAlignment analysis1)
                                      \<lparr>recommendations := recommendations (jobAlignment analysis1)
                                                            @ map JStr new\<rparr>\<rparr>)"
    unfolding enhanceAnalysisWithJobInsights_def Some
    by (auto simp: Let_def split: sum.splits)
  show ?thesis
  proof (cases "length M > 0")
    case True
    with a' have "a' = withInsights a
        (map JStr (filter (\<lambda>skill. JStr skill \<notin> set (missingSkills (keyFindings a)))
                            (map (catalogSpelling r) M))) (map JStr new)"
      by (simp add: withInsights_def Let_def)
    then show ?thesis by blast
  next
    case False
    with a' have "a' = withInsights a [] (map JStr new)"
      by (simp add: withInsights_def Let_def)
    then show ?thesis by blast
  qed
qed

lemma enhance_match:
  assumes f: "find (roleMatches jobRole) PREDEFINED_JOB_ROLES = Some r" and wt: "wellTyped a"
  shows "\<exists>new. generateRoleSpecificRecommendations r
                   (withInsights a (map JStr (filter (skillIsNew a) (commonSkills r))) []) = Inr new
           \<and> enhanceAnalysisWithJobInsights E a jobRole
             = Inr (withInsights a (map JStr (filter (skillIsNew a) (commonSkills r))) (map JStr new))
           \<and> 1 \<le> length new \<and> length new \<le> 3 \<and> distinct new"
proof -
  from f have r: "r \<in> set PREDEFINED_JOB_ROLES" by (auto simp: find_Some_iff)
  have ms: "list_all isString (missingSkills (keyFindings a))"
    using wt by (simp add: wellTyped_def)
  define q where "q = (\<lambda>skill. \<not> str_includes (skillsFeedbackText a) (toLowerCase skill)
            \<and> \<not> list_ex (\<lambda>m. str_includes (toLowerCase (stringOf m)) (toLowerCase skill))
                   (missingSkills (keyFindings a)))"
  define M where "M = filter q (map toLowerCase (commonSkills r))"
  define N where "N = filter (skillIsNew a) (commonSkills r)"
  define a1 where "a1 = a\<lparr>keyFindings := (keyFindings a)
                            \<lparr>missingSkills := missingSkills (keyFindings a) @ map JStr N\<rparr>\<rparr>"
  have st: "skillsSectionText E a = Inr (skillsFeedbackText a)"
    by (rule skillsSectionText_wellTyped [OF wt])
  have filt: "filterE (isMissingSkill (skillsFeedbackText a) (missingSkills (keyFindings a)))
      (map toLowerCase (commonSkills r)) = Inr M"
    unfolding M_def q_def by (rule filterE_missing [OF ms])
  have N: "filter (\<lambda>skill. JStr skill \<notin> set (missingSkills (keyFindings a)))
             (map (catalogSpelling r) M) = N"
    unfolding M_def q_def N_def by (rule new_missing_skills [OF r wt])
  have "list_all isString (map JStr N)"
    by (simp add: list_all_iff isString_def)
  with wt have "wellTyped a1"
    by (simp add: wellTyped_def a1_def)
  from generateRoleSpecificRecommendations_catalog [OF r this] obtain new
    where gen: "generateRoleSpecificRecommendations r a1 = Inr new"
      and new: "1 \<le> length new" "length new \<le> 3" "distinct new"
    by blast
  have "enhanceAnalysisWithJobInsights E a jobRole
          = Inr (a1\<lparr>jobAlignment := (jobAlignment a1)
                      \<lparr>recommendations := recommendations (jobAlignment a1) @ map JStr new\<rparr>\<rparr>)"
  proof (cases "M = []")
    case True
    with N have "N = []" by simp
    then have "a1 = a" by (simp add: a1_def)
    with gen have "generateRoleSpecificRecommendations r a = Inr new" by simp
    then show ?thesis
      unfolding enhanceAnalysisWithJobInsights_def
      by (simp add: f st filt True Let_def \<open>a1 = a\<close>)
  next
    case False
    from gen have "generateRoleSpecificRecommendations r
        (a\<lparr>keyFindings := (keyFindings a)
              \<lparr>missingSkills := missingSkills (keyFindings a) @ map JStr N\<rparr>\<rparr>) = Inr new"
      by (simp add: a1_def)
    then show ?thesis
      unfolding enhanceAnalysisWithJobInsights_def
      by (simp add: f st filt N False Let_def a1_def)
  qed
  also have "a1\<lparr>jobAlignment := (jobAlignment a1)
                      \<lparr>recommendations := recommendations (jobAlignment a1) @ map JStr new\<rparr>\<rparr>
      = withInsights a (map JStr N) (map JStr new)"
    by (simp add: a1_def withInsights_def)
  finally have "enhanceAnalysisWithJobInsights E a jobRole
      = Inr (withInsights a (map JStr N) (map JStr new))" .
  moreover have "a1 = withInsights a (map JStr N) []"
    by (simp add: a1_def withInsights_def)
  ultimately show ?thesis using new gen unfolding N_def by auto
qed

lemma sample_wellTyped: "wellTyped sampleAnalysis"
  by (simp add: wellTyped_def sampleAnalysis_def wellTypedSection_def member_def isString_def)

lemma sample_lookup:
  "find (roleMatches ''data scientist'') PREDEFINED_JOB_ROLES = Some (PREDEFINED_JOB_ROLES ! 0)"
  by (simp add: PREDEFINED_JOB_ROLES_def roleMatches_def lower_eval)



lemma sample_text:
  "skillsFeedbackText sampleAnalysis = ''lists python and sql no statistics tools''"
  by (simp add: skillsFeedbackText_def sampleAnalysis_def member_def stringOf_def startsWith_eval
      arrayOrEmpty_def lower_eval)

lemma sample_role_skills:
  "commonSkills (PREDEFINED_JOB_ROLES ! 0) =
     [''Python'', ''R'', ''SQL'', ''Machine Learning'', ''Statistics'', ''Data Visualization'',
      ''TensorFlow'', ''Pandas'', ''Numpy'']"
  by (simp add: PREDEFINED_JOB_ROLES_def)

lemma sample_missing:
  "missingSkills (keyFindings sampleAnalysis) = [JStr ''Machine learning basics'']"
  by (simp add: sampleAnalysis_def)

lemma sample_known_skills:
  "\<not> skillIsNew sampleAnalysis ''Python''" "\<not> skillIsNew sampleAnalysis ''R''"
  "\<not> skillIsNew sampleAnalysis ''SQL''" "\<not> skillIsNew sampleAnalysis ''Machine Learning''"
  "\<not> skillIsNew sampleAnalysis ''Statistics''"
  unfolding skillIsNew_def sample_text sample_missing
  by (simp_all add: stringOf_def startsWith_eval lower_eval)

lemma sample_unknown_skills:
  "skillIsNew sampleAnalysis ''Data Visualization''" "skillIsNew sampleAnalysis ''TensorFlow''"
  "skillIsNew sampleAnalysis ''Pandas''" "skillIsNew sampleAnalysis ''Numpy''"
  unfolding skillIsNew_def sample_text sample_missing
  by (simp_all add: stringOf_def startsWith_eval lower_eval)

lemma sample_new_skills:
  "filter (skillIsNew sampleAnalysis) (commonSkills (PREDEFINED_JOB_ROLES ! 0))
     = [''Data Visualization'', ''TensorFlow'', ''Pandas'', ''Numpy'']"
  unfolding sample_role_skills
  by (simp add: sample_known_skills sample_unknown_skills)

lemma sample_recommendations:
  "generateRoleSpecificRecommendations (PREDEFINED_JOB_ROLES ! 0)
     (withInsights sampleAnalysis ms []) =
   Inr [''Consider adding more specific technical projects that demonstrate Python, R, SQL experience'',
        ''Ensure your technical skills section includes both the technologies you used and the context/projects where you applied them'']"
proof -
  have c: "toLowerCase (category (PREDEFINED_JOB_ROLES ! 0)) = ''technology''"
    by (simp add: PREDEFINED_JOB_ROLES_def lower_eval)
  have s: "overallScore (withInsights sampleAnalysis ms []) = Finite 62"
    by (simp add: withInsights_def sampleAnalysis_def)
  show ?thesis
    unfolding generateRoleSpecificRecommendations_def categoryRecommendations_def c s
      sample_role_skills
    by simp
qed

lemma sample_enriched:
  "enhanceAnalysisWithJobInsights E sampleAnalysis ''data scientist'' =
     Inr (withInsights sampleAnalysis
            [JStr ''Data Visualization'', JStr ''TensorFlow'', JStr ''Pandas'', JStr ''Numpy'']
            [JStr ''Consider adding more specific technical projects that demonstrate Python, R, SQL experience'',
             JStr ''Ensure your technical skills section includes both the technologies you used and the context/projects where you applied them''])"
  using enhance_match [OF sample_lookup sample_wellTyped, of E]
  unfolding sample_new_skills sample_recommendations
  by auto

lemma withInsights_fields:
  "overallScore (withInsights a ms rs) = overallScore a"
  "missingSkills (keyFindings (withInsights a ms rs)) = missingSkills (keyFindings a) @ ms"
  "recommendations (jobAlignment (withInsights a ms rs)) = recommendations (jobAlignment a) @ rs"
  by (simp_all add: withInsights_def)

subsection \<open>C5: enrichment is monotone\<close>

text \<open>
  Claim C5. Whenever \<open>enhanceAnalysisWithJobInsights\<close> returns, for any analysis and any
  job-role title, the overall score of the result is the score of the input (so not
  lower) and every list field of the input (the sections, the four lists of the key
  findings, the three lists of the job alignment) is extended: all its entries are
  still there, in order, and nothing is removed. On every well-typed analysis the
  enricher does return.
\<close>

theorem enhance_monotone:
  "(enhanceAnalysisWithJobInsights E a jobRole = Inr a' \<longrightarrow>
      overallScore a' = overallScore a \<and> enrichmentKeeps a a')
   \<and> (wellTyped a \<longrightarrow> (\<exists>a''. enhanceAnalysisWithJobInsights E a jobRole = Inr a''))"
proof (intro conjI impI)
  assume "enhanceAnalysisWithJobInsights E a jobRole = Inr a'"
  then obtain ms rs where "a' = withInsights a ms rs"
    using enhance_shape by blast
  then show "overallScore a' = overallScore a" and "enrichmentKeeps a a'"
    by (simp_all add: withInsights_fields withInsights_keeps)
next
  assume wt: "wellTyped a"
  show "\<exists>a''. enhanceAnalysisWithJobInsights E a jobRole = Inr a''"
  proof (cases "find (roleMatches jobRole) PREDEFINED_JOB_ROLES")
    case None
    then show ?thesis by (simp add: enhance_no_match)
  next
    case (Some r)
    from enhance_match [OF Some wt, of E] show ?thesis by blast
  qed
qed

text \<open>
  C5 at the sample analysis and the title \<^verbatim>\<open>data scientist\<close>: four skills and two
  recommendations are appended, and the sample is kept.
\<close>

theorem enhance_monotone_witness:
  "\<forall>E. enhanceAnalysisWithJobInsights E sampleAnalysis ''data scientist'' =
         Inr (withInsights sampleAnalysis
            [JStr ''Data Visualization'', JStr ''TensorFlow'', JStr ''Pandas'', JStr ''Numpy'']
            [JStr ''Consider adding more specific technical projects that demonstrate Python, R, SQL experience'',
             JStr ''Ensure your technical skills section includes both the technologies you used and the context/projects where you applied them''])
       \<and> enrichmentKeeps sampleAnalysis
            (withInsights sampleAnalysis
            [JStr ''Data Visualization'', JStr ''TensorFlow'', JStr ''Pandas'', JStr ''Numpy'']
            [JStr ''Consider adding more specific technical projects that demonstrate Python, R, SQL experience'',
             JStr ''Ensure your technical skills section includes both the technologies you used and the context/projects where you applied them''])
       \<and> wellTyped sampleAnalysis"
  using enhance_monotone [of _ sampleAnalysis "''data scientist''"] sample_enriched sample_wellTyped
  by blast

subsection \<open>C6: catalog lookup and missing skills\<close>



subsection \<open>C10: recommendations on a catalog match\<close>



section \<open>Facts about the analysis requester\<close>

lemma trim_fixed:
  assumes "s \<noteq> []" and "\<not> isSpace (hd s)" and "\<not> isSpace (last s)"
  shows "trim s = s"
proof -
  from assms(1,2) have "dropWhile isSpace s = s" by (cases s) auto
  moreover from assms(1,3) have "dropWhile isSpace (rev s) = rev s"
    by (cases "rev s") (auto simp: last_rev [symmetric] hd_rev)
  ultimately show ?thesis by (simp add: trim_def)
qed

lemma trim_empty: "trim [] = []"
  by (simp add: trim_def)

lemma analyzeResume_too_short:
  assumes "length (trim (content resumeInput)) < 100"
  shows "analyzeResume E client resumeInput jobRole jobDescription =
     (Inl (Error ''Failed to analyze resume: Resume content is too short or empty. Please provide a complete resume.''),
      [])"
  using assms by (simp add: analyzeResume_def errorMessage_def)

lemma analyzeResume_no_role:
  assumes "100 \<le> length (trim (content resumeInput))" and "trim jobRole = []"
  shows "analyzeResume E client resumeInput jobRole jobDescription =
     (Inl (Error ''Failed to analyze resume: Job role is required for targeted analysis.''), [])"
proof -
  from assms(1) have "content resumeInput \<noteq> []" by (auto simp: trim_def)
  with assms show ?thesis by (simp add: analyzeResume_def errorMessage_def)
qed

lemma invalid_messages:
  "isInvalidInput (Error ''Resume content is too short or empty. Please provide a complete resume.'')"
  "isInvalidInput (Error ''Job role is required for targeted analysis.'')"
  "isInvalidInput (Error ''Failed to analyze resume: Resume content is too short or empty. Please provide a complete resume.'')"
  "isInvalidInput (Error ''Failed to analyze resume: Job role is required for targeted analysis.'')"
  by (simp_all add: isInvalidInput_def startsWith_eval)

lemma analyzeResume_valid_input_requests:
  assumes "100 \<le> length (trim (content resumeInput))" and "trim jobRole \<noteq> []"
    and "validateOpenAIKey client"
  shows "snd (analyzeResume E client resumeInput jobRole jobDescription) =
     [(RESUME_ANALYSIS_SYSTEM_PROMPT,
       createResumeAnalysisPrompt (content resumeInput) jobRole jobDescription)]"
proof -
  from assms(1) have "content resumeInput \<noteq> []" by (auto simp: trim_def)
  moreover from assms(2) have "jobRole \<noteq> []" by (auto simp: trim_def)
  ultimately show ?thesis
    using assms
    by (simp add: analyzeResume_def callOpenAI_def Let_def split: sum.splits list.splits option.splits)
qed

lemma sample_trimmed: "trim (content sampleResumeInput) = content sampleResumeInput"
  by (rule trim_fixed) (simp_all add: sampleResumeInput_def isSpace_def code_def)

lemma sample_length: "length (content sampleResumeInput) = 120"
  by (simp add: sampleResumeInput_def)

subsection \<open>C8: the requester fails fast on invalid input\<close>

text \<open>
  Claim C8. Whenever the trimmed resume text is shorter than 100 characters or the job
  role is empty after trimming, \<open>analyzeResume\<close> throws an invalid-input error and
  has sent no request to the external service. The error is the too-short one when the
  text is too short, and the job-role one when the text is long enough and the role is
  empty. (On valid input with a configured key one request is sent, see
  \<open>analyzeResume_valid_input_requests\<close>.)
\<close>

theorem analyzeResume_fails_fast:
  "(length (trim (content resumeInput)) < 100 \<or> trim jobRole = [] \<longrightarrow>
      (\<exists>e. analyzeResume E client resumeInput jobRole jobDescription = (Inl e, [])
           \<and> isInvalidInput e))
   \<and> (length (trim (content resumeInput)) < 100 \<longrightarrow>
        analyzeResume E client resumeInput jobRole jobDescription =
          (Inl (Error ''Failed to analyze resume: Resume content is too short or empty. Please provide a complete resume.''),
           []))
   \<and> (100 \<le> length (trim (content resumeInput)) \<and> trim jobRole = [] \<longrightarrow>
        analyzeResume E client resumeInput jobRole jobDescription =
          (Inl (Error ''Failed to analyze resume: Job role is required for targeted analysis.''), []))"
proof (intro conjI impI)
  assume h: "length (trim (content resumeInput)) < 100 \<or> trim jobRole = []"
  show "\<exists>e. analyzeResume E client resumeInput jobRole jobDescription = (Inl e, [])
           \<and> isInvalidInput e"
  proof (cases "length (trim (content resumeInput)) < 100")
    case True
    then show ?thesis
      using analyzeResume_too_short [of resumeInput E client jobRole jobDescription] invalid_messages(3)
      by blast
  next
    case False
    with h have "100 \<le> length (trim (content resumeInput))" "trim jobRole = []" by auto
    then show ?thesis
      using analyzeResume_no_role [of resumeInput jobRole E client jobDescription] invalid_messages(4)
      by blast
  qed
next
  assume "length (trim (content resumeInput)) < 100"
  then show "analyzeResume E client resumeInput jobRole jobDescription =
          (Inl (Error ''Failed to analyze resume: Resume content is too short or empty. Please provide a complete resume.''),
           [])"
    by (rule analyzeResume_too_short)
next
  assume "100 \<le> length (trim (content resumeInput)) \<and> trim jobRole = []"
  then show "analyzeResume E client resumeInput jobRole jobDescription =
          (Inl (Error ''Failed to analyze resume: Job role is required for targeted analysis.''), [])"
    by (intro analyzeResume_no_role) simp_all
qed

text \<open>
  C8 at the sample of 120 characters: without a job role it fails with the job-role
  error and no request, for every engine, client and job description; with a text of
  eight characters it fails with the too-short error and no request.
\<close>

theorem analyzeResume_fails_fast_witness:
  "length (trim (content sampleResumeInput)) = 120
   \<and> (\<forall>E client jobDescription.
         analyzeResume E client sampleResumeInput [] jobDescription =
           (Inl (Error ''Failed to analyze resume: Job role is required for targeted analysis.''), []))
   \<and> (\<forall>E client jobDescription.
         analyzeResume E client (sampleResumeInput\<lparr>content := ''Jane Roe''\<rparr>) ''Data Scientist''
             jobDescription =
           (Inl (Error ''Failed to analyze resume: Resume content is too short or empty. Please provide a complete resume.''),
            []))"
proof (intro conjI allI)
  show "length (trim (content sampleResumeInput)) = 120"
    by (simp add: sample_trimmed sample_length)
next
  fix E client jobDescription
  show "analyzeResume E client sampleResumeInput [] jobDescription =
           (Inl (Error ''Failed to analyze resume: Job role is required for targeted analysis.''), [])"
    using analyzeResume_fails_fast [of sampleResumeInput "[]" E client jobDescription] trim_empty
    by (simp add: sample_trimmed sample_length)
next
  fix E client jobDescription
  have "length (trim ''Jane Roe'') < 100"
    by (simp add: trim_def isSpace_def code_def)
  then show "analyzeResume E client (sampleResumeInput\<lparr>content := ''Jane Roe''\<rparr>) ''Data Scientist''
             jobDescription =
           (Inl (Error ''Failed to analyze resume: Resume content is too short or empty. Please provide a complete resume.''),
            [])"
    using analyzeResume_fails_fast
      [of "sampleResumeInput\<lparr>content := ''Jane Roe''\<rparr>" "''Data Scientist''" E client jobDescription]
    by simp
qed

section \<open>Facts about the text normalizer\<close>

subsection \<open>Every stage but the three that insert a space only shrinks the text\<close>

lemma alike_refl: "alike a a"
  by (simp add: alike_def)

lemma shrinks_refl: "shrinks s s"
  unfolding shrinks_def by (rule list_emb_refl) (rule alike_refl)

lemma shrinks_trans: "shrinks a b \<Longrightarrow> shrinks b c \<Longrightarrow> shrinks a c"
  unfolding shrinks_def
  by (rule list_emb_trans [where ys = b]) (auto simp: alike_def)

lemma shrinks_Nil: "shrinks [] s"
  by (simp add: shrinks_def)

lemma shrinks_drop: "shrinks out s \<Longrightarrow> shrinks out (c # s)"
  by (auto simp add: shrinks_def)

lemma shrinks_keep: "shrinks out s \<Longrightarrow> shrinks (c # out) (c # s)"
  by (auto simp add: shrinks_def alike_refl)

lemma shrinks_swap: "alike a c \<Longrightarrow> shrinks out s \<Longrightarrow> shrinks (a # out) (c # s)"
  by (auto simp add: shrinks_def)

lemma shrinks_append: "shrinks a b \<Longrightarrow> shrinks c d \<Longrightarrow> shrinks (a @ c) (b @ d)"
  unfolding shrinks_def by (rule list_emb_append_mono)

lemma isWord_class: "isLowerAZ c \<Longrightarrow> isWord c" "isUpperAZ c \<Longrightarrow> isWord c" "isDigit c \<Longrightarrow> isWord c"
  by (auto simp: isWord_def)

lemma isJoin_alike: "alike a a' \<Longrightarrow> alike b b' \<Longrightarrow> isJoin a b = isJoin a' b'"
  unfolding alike_def isJoin_def using isWord_class by blast

lemma joins_Cons: "joins (b # s) = (if s \<noteq> [] \<and> isJoin b (hd s) then 1 else 0) + joins s"
  by (cases s) auto

lemma joins_Cons_le: "joins (b # s) \<le> Suc (joins (c # s))"
  by (simp add: joins_Cons)

lemma weight_shrinks:
  "list_emb alike out inp \<Longrightarrow> alike b b' \<Longrightarrow>
     length out + joins (b # out) \<le> length inp + joins (b' # inp)"
proof (induction arbitrary: b b' rule: list_emb.induct)
  case (list_emb_Nil ys)
  then show ?case by simp
next
  case (list_emb_Cons xs ys y)
  have "length xs + joins (b # xs) \<le> length ys + joins (b # ys)"
    using list_emb_Cons.IH [of b b] by (simp add: alike_refl)
  moreover have "joins (b # ys) \<le> Suc (joins (y # ys))"
    by (rule joins_Cons_le)
  moreover have "joins (y # ys) \<le> joins (b' # y # ys)"
    by simp
  ultimately show ?case by simp
next
  case (list_emb_Cons2 x y xs ys)
  have "length xs + joins (x # xs) \<le> length ys + joins (y # ys)"
    using list_emb_Cons2.IH [of x y] list_emb_Cons2.hyps by simp
  moreover have "isJoin b x = isJoin b' y"
    using isJoin_alike list_emb_Cons2 by blast
  ultimately show ?case by simp
qed

lemma SP_plain: "\<not> isWord SP" "\<not> isLowerAZ SP" "\<not> isUpperAZ SP" "\<not> isDigit SP"
  by (simp_all add: SP_def isWord_def isLowerAZ_def isUpperAZ_def isDigit_def code_def)

lemma isJoin_SP: "\<not> isJoin SP c" "\<not> isJoin c SP"
  using SP_plain by (auto simp: isJoin_def)

lemma spaceBetween_Nil_iff: "spaceBetween P Q s = [] \<longleftrightarrow> s = []"
  by (induction P Q s rule: spaceBetween.induct) auto

lemma hd_spaceBetween: "hd (spaceBetween P Q s) = hd s"
  by (induction P Q s rule: spaceBetween.induct) auto

lemma weight_spaceBetween:
  "(\<And>a c. P a \<Longrightarrow> Q c \<Longrightarrow> isJoin a c) \<Longrightarrow>
     length (spaceBetween P Q s) + joins (b # spaceBetween P Q s)
       \<le> length s + joins (b # s)"
proof (induction P Q s arbitrary: b rule: spaceBetween.induct)
  case (1 P Q a c cs)
  show ?case
  proof (cases "P a \<and> Q c")
    case True
    then have "isJoin a c" using 1(3) by blast
    then show ?thesis using True 1(1) [of c] 1(3) by (simp add: isJoin_SP)
  next
    case False
    define t where "t = spaceBetween P Q (c # cs)"
    have step: "spaceBetween P Q (a # c # cs) = a # t"
      using False by (auto simp add: t_def)
    have "length t + joins (a # t) \<le> length (c # cs) + joins (a # c # cs)"
      unfolding t_def using False 1(2) [of a] 1(3) by blast
    then show ?thesis
      unfolding step by simp
  qed
qed auto


lemma plain_chars: "\<not> isWord LF" "\<not> isWord CR" "\<not> isWord TAB"
  by (simp_all add: LF_def CR_def TAB_def isWord_def isLowerAZ_def isUpperAZ_def isDigit_def code_def)

lemma shrinks_crlfToLf: "shrinks (crlfToLf s) s"
proof (induction s rule: crlfToLf.induct)
  case (1 c d cs)
  then show ?case
    by (auto intro: shrinks_drop shrinks_keep)
qed (simp_all add: shrinks_refl)

lemma shrinks_crToLf: "shrinks (crToLf s) s"
proof (induction s)
  case Nil
  then show ?case by (simp add: crToLf_def shrinks_Nil)
next
  case (Cons c cs)
  have "alike (if c = CR then LF else c) c"
    using plain_chars by (simp add: alike_def)
  then show ?case
    using Cons shrinks_swap by (simp add: crToLf_def)
qed

lemma shrinks_closeRun:
  "(\<And>run. \<forall>c\<in>set run. X c \<Longrightarrow> n \<le> length run \<Longrightarrow> shrinks r run) \<Longrightarrow>
     \<forall>c\<in>set run. X c \<Longrightarrow> shrinks (closeRun n r run) run"
  by (simp add: closeRun_def shrinks_refl)

lemma shrinks_collapseRuns:
  assumes "\<And>run. \<forall>c\<in>set run. X c \<Longrightarrow> n \<le> length run \<Longrightarrow> shrinks r run"
  shows "\<forall>c\<in>set run. X c \<Longrightarrow> shrinks (collapseRuns X n r run s) (run @ s)"
proof (induction s arbitrary: run)
  case Nil
  then show ?case using shrinks_closeRun [OF assms] by simp
next
  case (Cons c cs)
  show ?case
  proof (cases "X c")
    case True
    then show ?thesis using Cons.IH [of "run @ [c]"] Cons.prems by simp
  next
    case False
    have "shrinks (closeRun n r run) run"
      using shrinks_closeRun [OF assms] Cons.prems by blast
    moreover have "shrinks (c # collapseRuns X n r [] cs) (c # cs)"
      using Cons.IH [of "[]"] shrinks_keep by simp
    ultimately show ?thesis
      using False shrinks_append by simp
  qed
qed

lemma shrinks_collapseNewlines: "shrinks (collapseNewlines s) s"
proof -
  have "shrinks [LF, LF] run" if allX: "\<forall>c\<in>set run. c = LF" and long: "3 \<le> length run" for run
  proof -
    obtain a b rest where "run = a # b # rest"
      using long by (cases run; cases "tl run") auto
    then show ?thesis
      using allX by (simp add: shrinks_keep shrinks_Nil)
  qed
  then show ?thesis
    using shrinks_collapseRuns [of "\<lambda>c. c = LF" 3 "[LF, LF]" "[]" s]
    by (simp add: collapseNewlines_def)
qed

lemma shrinks_collapseBlanks: "shrinks (collapseBlanks s) s"
proof -
  have "shrinks [SP] run" if allX: "\<forall>c\<in>set run. c = SP \<or> c = TAB" and long: "2 \<le> length run" for run
  proof -
    obtain a rest where run: "run = a # rest"
      using long by (cases run) auto
    then have "alike SP a"
      using allX SP_plain(1) plain_chars by (auto simp: alike_def)
    then show ?thesis
      unfolding run by (simp add: shrinks_swap shrinks_Nil)
  qed
  then show ?thesis
    using shrinks_collapseRuns [of "\<lambda>c. c = SP \<or> c = TAB" 2 "[SP]" "[]" s]
    by (simp add: collapseBlanks_def)
qed

lemma shrinks_filter: "shrinks (filter P s) s"
  by (induction s) (simp_all add: shrinks_Nil shrinks_keep shrinks_drop)

lemma shrinks_keepPrintable: "shrinks (keepPrintable s) s"
  by (simp add: keepPrintable_def shrinks_filter)

lemma shrinks_suffix: "shrinks s (p @ s)"
  by (induction p) (simp_all add: shrinks_refl shrinks_drop)

lemma shrinks_prefix: "shrinks s (s @ q)"
  using shrinks_append [OF shrinks_refl shrinks_Nil, of s q] by simp

lemma shrinks_fromLastTerminator: "shrinks (fromLastTerminator p) p"
  by (induction p) (simp_all add: shrinks_Nil shrinks_refl shrinks_drop)

lemma shrinks_removeNumberLines:
  "shrinks (removeNumberLines st s) ((case st of None \<Rightarrow> [] | Some p \<Rightarrow> p) @ s)"
proof (induction st s rule: removeNumberLines.induct)
  case 1
  then show ?case by (simp add: shrinks_Nil)
next
  case (2 pending)
  then show ?case by (simp add: shrinks_Nil)
next
  case (3 c cs)
  then show ?case
    using shrinks_keep [of _ cs c] shrinks_suffix by (auto split: if_splits)
next
  case (4 pending c cs)
  show ?case
  proof (cases "isDigit c \<or> isSpace c")
    case True
    then show ?thesis using 4 by simp
  next
    case False
    have "shrinks (c # removeNumberLines None cs) (c # cs)"
      using 4(2) False shrinks_keep by simp
    then show ?thesis
      using False shrinks_append [OF shrinks_fromLastTerminator] by simp
  qed
qed

lemma afterLastNewline_split:
  "LF \<in> set p \<Longrightarrow> \<exists>q. p = q @ LF # afterLastNewline p"
proof -
  assume "LF \<in> set p"
  then obtain ys zs where p: "p = ys @ LF # zs" and "LF \<notin> set zs"
    using split_list_last by fastforce
  then have "\<forall>x\<in>set (rev zs). x \<noteq> LF"
    by auto
  then have "takeWhile (\<lambda>c. c \<noteq> LF) (rev zs @ LF # rev ys) = rev zs"
    using takeWhile_append2 [of "rev zs" "\<lambda>c. c \<noteq> LF" "LF # rev ys"] by simp
  then have "afterLastNewline p = zs"
    by (simp add: afterLastNewline_def p)
  then show ?thesis using p by auto
qed

lemma shrinks_closeBreak: "shrinks (closeBreak p) (LF # p)"
proof (cases "LF \<in> set p")
  case True
  then obtain q where "p = q @ LF # afterLastNewline p"
    using afterLastNewline_split by blast
  then have "shrinks (LF # afterLastNewline p) p"
    using shrinks_suffix [of "LF # afterLastNewline p" q] by simp
  then show ?thesis
    using True by (simp add: closeBreak_def shrinks_keep)
next
  case False
  then show ?thesis by (simp add: closeBreak_def shrinks_refl)
qed

lemma shrinks_paragraphBreaks:
  "shrinks (paragraphBreaks st s) ((case st of None \<Rightarrow> [] | Some p \<Rightarrow> LF # p) @ s)"
proof (induction st s rule: paragraphBreaks.induct)
  case 1
  then show ?case by (simp add: shrinks_Nil)
next
  case (2 pending)
  then show ?case using shrinks_closeBreak by simp
next
  case (3 c cs)
  then show ?case
    using shrinks_keep [of _ cs c] by (auto split: if_splits)
next
  case (4 pending c cs)
  show ?case
  proof (cases "isSpace c")
    case True
    then show ?thesis using 4 by simp
  next
    case False
    have "shrinks (c # paragraphBreaks None cs) (c # cs)"
      using 4(2) False shrinks_keep by simp
    then show ?thesis
      using False shrinks_append [OF shrinks_closeBreak] by simp
  qed
qed

lemma shrinks_trim: "shrinks (trim s) s"
proof -
  define m where "m = dropWhile isSpace s"
  have "s = takeWhile isSpace s @ m"
    by (simp add: m_def)
  then have 1: "shrinks m s"
    using shrinks_suffix by metis
  have "rev m = takeWhile isSpace (rev m) @ dropWhile isSpace (rev m)"
    by simp
  then have "m = rev (dropWhile isSpace (rev m)) @ rev (takeWhile isSpace (rev m))"
    by (metis rev_append rev_rev_ident)
  then have "shrinks (rev (dropWhile isSpace (rev m))) m"
    using shrinks_prefix by metis
  then have "shrinks (rev (dropWhile isSpace (rev m))) s"
    using 1 by (rule shrinks_trans)
  then show ?thesis
    by (simp add: trim_def m_def)
qed

lemma weight_shrinks_plain:
  "shrinks out inp \<Longrightarrow> length out + joins out \<le> length inp + joins inp"
  using weight_shrinks [of out inp SP SP]
  by (simp add: shrinks_def alike_refl joins_Cons isJoin_SP)

lemma weight_spaceBetween_plain:
  "(\<And>a c. P a \<Longrightarrow> Q c \<Longrightarrow> isJoin a c) \<Longrightarrow>
     length (spaceBetween P Q s) + joins (spaceBetween P Q s) \<le> length s + joins s"
  using weight_spaceBetween [of P Q s SP]
  by (simp add: joins_Cons isJoin_SP)

subsection \<open>C4: the length of the normalized text\<close>

text \<open>
  Claim C4, as it holds. The normalized text has at most as many characters as the
  input has characters and joins together: a space is inserted only at a join, and no
  stage makes the number of characters and joins together larger. So the result is not
  longer than an input without joins, and it is longer than an input such as
  \<^verbatim>\<open>aB\<close>.
\<close>

theorem cleanExtractedText_length:
  "length (cleanExtractedText t) \<le> length t + joins t"
proof (cases "t = []")
  case True
  then show ?thesis by (simp add: cleanExtractedText_def)
next
  case False
  define s6 where
    "s6 = removeNumberLines (Some []) (keepPrintable (collapseBlanks (collapseNewlines (crToLf (crlfToLf t)))))"
  define s7 where "s7 = spaceBetween isLowerAZ isUpperAZ s6"
  define s8 where "s8 = spaceBetween isWord isDigit s7"
  define s9 where "s9 = spaceBetween isDigit isWord s8"
  have "shrinks s6 (keepPrintable (collapseBlanks (collapseNewlines (crToLf (crlfToLf t)))))"
    unfolding s6_def using shrinks_removeNumberLines [of "Some []"] by simp
  then have "shrinks s6 (collapseBlanks (collapseNewlines (crToLf (crlfToLf t))))"
    using shrinks_keepPrintable shrinks_trans by blast
  then have "shrinks s6 (collapseNewlines (crToLf (crlfToLf t)))"
    using shrinks_collapseBlanks shrinks_trans by blast
  then have "shrinks s6 (crToLf (crlfToLf t))"
    using shrinks_collapseNewlines shrinks_trans by blast
  then have "shrinks s6 (crlfToLf t)"
    using shrinks_crToLf shrinks_trans by blast
  then have "shrinks s6 t"
    using shrinks_crlfToLf shrinks_trans by blast
  then have 6: "length s6 + joins s6 \<le> length t + joins t"
    by (rule weight_shrinks_plain)
  have 7: "length s7 + joins s7 \<le> length s6 + joins s6"
    unfolding s7_def by (rule weight_spaceBetween_plain) (simp add: isJoin_def)
  have 8: "length s8 + joins s8 \<le> length s7 + joins s7"
    unfolding s8_def by (rule weight_spaceBetween_plain) (simp add: isJoin_def)
  have 9: "length s9 + joins s9 \<le> length s8 + joins s8"
    unfolding s9_def by (rule weight_spaceBetween_plain) (simp add: isJoin_def)
  have "shrinks (paragraphBreaks None s9) s9"
    using shrinks_paragraphBreaks [of None] by simp
  then have "shrinks (trim (paragraphBreaks None s9)) s9"
    using shrinks_trim shrinks_trans by blast
  then have "length (trim (paragraphBreaks None s9)) \<le> length s9"
    unfolding shrinks_def by (rule list_emb_length)
  moreover have "cleanExtractedText t = trim (paragraphBreaks None s9)"
    using False by (simp add: cleanExtractedText_def s9_def s8_def s7_def s6_def)
  ultimately have "length (cleanExtractedText t) \<le> length s9"
    by simp
  then show ?thesis
    using 6 7 8 9 by linarith
qed

text \<open>
  The input \<^verbatim>\<open>aB\<close> of two characters has one join, and its normalized text
  \<^verbatim>\<open>a B\<close> has three characters.
\<close>

theorem cleanExtractedText_length_counterexample:
  "cleanExtractedText ''aB'' = ''a B''
   \<and> length ''aB'' < length (cleanExtractedText ''aB'')"
  by code_simp

subsection \<open>C3: normalizing twice\<close>

text \<open>
  Claim C3 says that normalizing a normalized text changes nothing. On the text
  \<^verbatim>\<open>ISO9001certified\<close> it does: the stage for a word character before a digit
  matches \<^verbatim>\<open>O9\<close> and \<^verbatim>\<open>00\<close>, the stage for a digit before a word character then
  matches \<^verbatim>\<open>90\<close> and \<^verbatim>\<open>01\<close>, and the \<^verbatim>\<open>1\<close> it has used cannot begin a match
  with \<^verbatim>\<open>c\<close>. The result \<^verbatim>\<open>ISO 9 0 0 1certified\<close> has the digits apart and no
  space before \<^verbatim>\<open>certified\<close>; normalizing it again inserts that space.
\<close>

theorem cleanExtractedText_twice:
  "cleanExtractedText ''ISO9001certified'' = ''ISO 9 0 0 1certified''
   \<and> cleanExtractedText (cleanExtractedText ''ISO9001certified'') = ''ISO 9 0 0 1 certified''"
  by code_simp

end
